theory Spec2Isabelle
  imports Main "HOL-Library.Sublist"
begin

section \<open>Byte strings and base64 (encoding/base64 of the Go standard library)\<close>

text \<open>
  A Go \<^verbatim>\<open>string\<close> and a \<^verbatim>\<open>[]byte\<close> are sequences of bytes; both are modelled as
  \<^typ>\<open>string\<close>, whose characters are 8-bit values. An encoding is given by its 64-character
  alphabet; both encodings used by the remember module pad with \<^verbatim>\<open>=\<close>.
\<close>

definition StdEncoding :: string where
  "StdEncoding = ''ABCDEFGHIJKLMNOPQRSTUVWXYZabcdefghijklmnopqrstuvwxyz0123456789+/''"

definition URLEncoding :: string where
  "URLEncoding = ''ABCDEFGHIJKLMNOPQRSTUVWXYZabcdefghijklmnopqrstuvwxyz0123456789-_''"

definition padChar :: char where
  "padChar = CHR ''=''"

text \<open>Three input bytes give four sextets; a final group of one or two bytes is padded.\<close>

fun EncodeToString :: "string \<Rightarrow> string \<Rightarrow> string" where
  "EncodeToString enc (a # b # c # rest) =
     [enc ! (of_char a div 4),
      enc ! ((of_char a mod 4) * 16 + of_char b div 16),
      enc ! ((of_char b mod 16) * 4 + of_char c div 64),
      enc ! (of_char c mod 64)] @ EncodeToString enc rest"
| "EncodeToString enc [a, b] =
     [enc ! (of_char a div 4),
      enc ! ((of_char a mod 4) * 16 + of_char b div 16),
      enc ! ((of_char b mod 16) * 4),
      padChar]"
| "EncodeToString enc [a] =
     [enc ! (of_char a div 4),
      enc ! ((of_char a mod 4) * 16),
      padChar, padChar]"
| "EncodeToString enc [] = []"

text \<open>The decode map of an alphabet: the position of a character, if it has one.\<close>

fun decodeMap :: "string \<Rightarrow> char \<Rightarrow> nat option" where
  "decodeMap [] c = None"
| "decodeMap (x # xs) c = (if x = c then Some 0 else map_option Suc (decodeMap xs c))"

text \<open>
  Decoding of the input once line breaks are dropped: full quanta of four alphabet
  characters, and a last quantum that may end in one or two padding characters. Padding
  anywhere else, a character outside the alphabet or a truncated quantum is a
  \<^verbatim>\<open>CorruptInputError\<close>, here \<^const>\<open>None\<close>. The encodings are not strict: the unused low
  bits of a padded quantum are not inspected.
\<close>

fun decodeQuanta :: "string \<Rightarrow> string \<Rightarrow> string option" where
  "decodeQuanta enc (a # b # c # d # rest) =
     (if rest = [] \<and> c = padChar \<and> d = padChar then
        (case (decodeMap enc a, decodeMap enc b) of
           (Some x, Some y) \<Rightarrow> Some [char_of (x * 4 + y div 16)]
         | _ \<Rightarrow> None)
      else if rest = [] \<and> d = padChar then
        (case (decodeMap enc a, decodeMap enc b, decodeMap enc c) of
           (Some x, Some y, Some z) \<Rightarrow>
             Some [char_of (x * 4 + y div 16), char_of ((y mod 16) * 16 + z div 4)]
         | _ \<Rightarrow> None)
      else
        (case (decodeMap enc a, decodeMap enc b, decodeMap enc c, decodeMap enc d) of
           (Some x, Some y, Some z, Some u) \<Rightarrow>
             (case decodeQuanta enc rest of
                Some bs \<Rightarrow>
                  Some ([char_of (x * 4 + y div 16), char_of ((y mod 16) * 16 + z div 4),
                         char_of ((z mod 4) * 64 + u)] @ bs)
              | None \<Rightarrow> None)
         | _ \<Rightarrow> None))"
| "decodeQuanta enc [] = Some []"
| "decodeQuanta enc _ = None"

text \<open>\<^verbatim>\<open>DecodeString\<close> ignores carriage returns and line feeds wherever they stand.\<close>

definition DecodeString :: "string \<Rightarrow> string \<Rightarrow> string option" where
  "DecodeString enc s =
     decodeQuanta enc (filter (\<lambda>c. c \<noteq> CHR 0x0A \<and> c \<noteq> CHR 0x0D) s)"

definition validEncoding :: "string \<Rightarrow> bool" where
  "validEncoding enc \<longleftrightarrow>
     length enc = 64 \<and> distinct enc \<and> padChar \<notin> set enc \<and>
     CHR 0x0A \<notin> set enc \<and> CHR 0x0D \<notin> set enc"

text \<open>\<^verbatim>\<open>bytes.IndexByte\<close>: the index of the first occurrence, or \<open>-1\<close>.\<close>

fun IndexByte :: "string \<Rightarrow> char \<Rightarrow> int" where
  "IndexByte [] c = - 1"
| "IndexByte (x # xs) c =
     (if x = c then 0 else (let i = IndexByte xs c in if i < 0 then - 1 else i + 1))"

text \<open>The builtin \<^verbatim>\<open>copy(dst, src)\<close>: overwrites the front of \<open>dst\<close>, never growing it.\<close>

definition copy :: "string \<Rightarrow> string \<Rightarrow> string" where
  "copy dst src = take (length dst) src @ drop (length src) dst"


section \<open>Errors, users, requests and the observable world\<close>

text \<open>
  Errors are values: the two sentinel errors the code names (\<^verbatim>\<open>ErrTokenNotFound\<close>,
  \<^verbatim>\<open>ErrUserNotFound\<close>), any other error of a collaborator, and an error wrapped by
  \<^verbatim>\<open>errors.Wrap\<close> of pkg/errors, which annotates it with a message and keeps it as the
  cause; \<^verbatim>\<open>errors.Cause\<close> unwraps to the innermost error.
\<close>

datatype error = ErrTokenNotFound | ErrUserNotFound | Err string | Wrap error string

fun Cause :: "error \<Rightarrow> error" where
  "Cause (Wrap e msg) = Cause e"
| "Cause e = e"

text \<open>
  A panic ends the call without a result: a failed type assertion, a nil dereference, or
  \<^verbatim>\<open>panic(err)\<close>.
\<close>

datatype panic = PanicTypeAssertion | PanicNilDereference | PanicError error

text \<open>
  Modelled from the spec: the \<^verbatim>\<open>User\<close> interface is not among the sources verified here;
  section 3 has a host-defined record of which the core only requires that it expose its
  pid. The second field stands for everything else the host keeps in it.
\<close>

datatype user = User (GetPID: string) (attributes: string)

text \<open>
  Values stored in a \<^verbatim>\<open>context.Context\<close> have type \<^verbatim>\<open>interface{}\<close>: here a string, a bool,
  a user, or a value of some other dynamic type (named). A key with no value and a key
  bound to nil both read as nil, here \<^const>\<open>None\<close>.
\<close>

datatype any = AString string | ABool bool | AUser user | AOther string

datatype contextKey =
  CTXKeyPID | CTXKeyUser | CTXKeySessionState | CTXKeyCookieState | CTXKeyData | CTXKeyRM

text \<open>
  Modelled from the spec: the key constants \<^verbatim>\<open>CookieRemember\<close>, \<^verbatim>\<open>SessionKey\<close> and
  \<^verbatim>\<open>SessionHalfAuthKey\<close> are not among the sources verified here; section 6 has a cookie
  named for the remember token and session entries for the resolved pid and for the
  half-authenticated flag. They are three different keys; their string literals play no part.
\<close>

datatype stateKey = CookieRemember | SessionKey | SessionHalfAuthKey

text \<open>
  A request carries its context values and the client state that was read for it: the
  cookies and the session entries.
\<close>

record request =
  Context :: "contextKey \<rightharpoonup> any"
  cookieState :: "stateKey \<rightharpoonup> string"
  sessionState :: "stateKey \<rightharpoonup> string"

text \<open>
  Everything a call does beyond returning a value is an event: writes to the cookie and
  session state of the response, log lines, calls of the storage collaborator and reads
  of the random source.
\<close>

datatype event =
    EvPutCookie stateKey string
  | EvDelCookie stateKey
  | EvPutSession stateKey string
  | EvInfof string
  | EvErrorf string error
  | EvLoad string
  | EvAddRememberToken string string
  | EvDelRememberTokens string
  | EvUseRememberToken string string
  | EvRandRead nat

text \<open>
  Modelled from the spec: the interface of the storage collaborator
  (\<^verbatim>\<open>Config.Storage.Server\<close>) is not among the sources verified here, and its implementation
  is supplied by the host. It is a record of operations over a storage state of any type
  \<open>'s\<close>; section 6 gives \<^verbatim>\<open>load(pid) -> UserRecord | NotFound\<close>,
  \<^verbatim>\<open>add_remember_token(pid, hash) -> ok | error\<close>,
  \<^verbatim>\<open>use_remember_token(pid, hash) -> ok | NotFound | error\<close> and
  \<^verbatim>\<open>delete_remember_tokens(pid) -> ok | error\<close>. A nil error is \<^const>\<open>None\<close>.
\<close>

record 's ServerStorer =
  Load :: "string \<Rightarrow> 's \<Rightarrow> (error + user) \<times> 's"
  AddRememberToken :: "string \<Rightarrow> string \<Rightarrow> 's \<Rightarrow> error option \<times> 's"
  DelRememberTokens :: "string \<Rightarrow> 's \<Rightarrow> error option \<times> 's"
  UseRememberToken :: "string \<Rightarrow> string \<Rightarrow> 's \<Rightarrow> error option \<times> 's"

text \<open>Of the configuration only the storage collaborator is used by the code below.\<close>

record 's Authboss =
  Server :: "'s ServerStorer"

text \<open>The world a call acts on: the collaborator's storage and the events so far.\<close>

record 's world =
  storage :: 's
  trace :: "event list"

definition emit :: "event \<Rightarrow> 's world \<Rightarrow> 's world" where
  "emit e w = w\<lparr>trace := trace w @ [e]\<rparr>"

text \<open>
  Modelled from the spec: the client state helpers are not among the sources verified here;
  section 6 gives, for the cookie store and the session store alike,
  \<^verbatim>\<open>get(request, key) -> value?\<close>, \<^verbatim>\<open>put(response, key, value)\<close> and
  \<^verbatim>\<open>delete(response, key)\<close>. A getter returns the value and whether it was present.
\<close>

definition GetCookie :: "request \<Rightarrow> stateKey \<Rightarrow> string \<times> bool" where
  "GetCookie r key = (case cookieState r key of None \<Rightarrow> ('''', False) | Some v \<Rightarrow> (v, True))"

definition GetSession :: "request \<Rightarrow> stateKey \<Rightarrow> string \<times> bool" where
  "GetSession r key = (case sessionState r key of None \<Rightarrow> ('''', False) | Some v \<Rightarrow> (v, True))"

definition PutCookie :: "stateKey \<Rightarrow> string \<Rightarrow> 's world \<Rightarrow> 's world" where
  "PutCookie key val = emit (EvPutCookie key val)"

definition DelCookie :: "stateKey \<Rightarrow> 's world \<Rightarrow> 's world" where
  "DelCookie key = emit (EvDelCookie key)"

definition PutSession :: "stateKey \<Rightarrow> string \<Rightarrow> 's world \<Rightarrow> 's world" where
  "PutSession key val = emit (EvPutSession key val)"

text \<open>The request logger: a log line is an event.\<close>

definition Infof :: "string \<Rightarrow> 's world \<Rightarrow> 's world" where
  "Infof msg = emit (EvInfof msg)"

definition Errorf :: "string \<Rightarrow> error \<Rightarrow> 's world \<Rightarrow> 's world" where
  "Errorf msg err = emit (EvErrorf msg err)"

text \<open>
  Modelled from the spec: \<^verbatim>\<open>EnsureCanRemember\<close> is not among the sources verified here; the
  storage contract of section 6 includes the remember-token capabilities, so the storer is
  returned as it is.
\<close>

definition EnsureCanRemember :: "'s ServerStorer \<Rightarrow> 's ServerStorer" where
  "EnsureCanRemember storer = storer"

text \<open>Calls of the collaborator: the call is recorded, the storage is replaced.\<close>

definition callLoad :: "'s ServerStorer \<Rightarrow> string \<Rightarrow> 's world \<Rightarrow> (error + user) \<times> 's world" where
  "callLoad storer pid w =
     (let (res, s) = Load storer pid (storage w)
      in (res, emit (EvLoad pid) (w\<lparr>storage := s\<rparr>)))"

definition callAddRememberToken ::
  "'s ServerStorer \<Rightarrow> string \<Rightarrow> string \<Rightarrow> 's world \<Rightarrow> error option \<times> 's world" where
  "callAddRememberToken storer pid hash w =
     (let (err, s) = AddRememberToken storer pid hash (storage w)
      in (err, emit (EvAddRememberToken pid hash) (w\<lparr>storage := s\<rparr>)))"

definition callDelRememberTokens ::
  "'s ServerStorer \<Rightarrow> string \<Rightarrow> 's world \<Rightarrow> error option \<times> 's world" where
  "callDelRememberTokens storer pid w =
     (let (err, s) = DelRememberTokens storer pid (storage w)
      in (err, emit (EvDelRememberTokens pid) (w\<lparr>storage := s\<rparr>)))"

definition callUseRememberToken ::
  "'s ServerStorer \<Rightarrow> string \<Rightarrow> string \<Rightarrow> 's world \<Rightarrow> error option \<times> 's world" where
  "callUseRememberToken storer pid hash w =
     (let (err, s) = UseRememberToken storer pid hash (storage w)
      in (err, emit (EvUseRememberToken pid hash) (w\<lparr>storage := s\<rparr>)))"

section \<open>The identity cache (context.go)\<close>

text \<open>
  Results of Go functions returning \<^verbatim>\<open>(T, error)\<close> are pairs with an optional error; a
  function that may panic returns a sum whose left side is the panic.
\<close>

definition CurrentUserID :: "request \<Rightarrow> panic + (string \<times> error option)" where
  "CurrentUserID r =
     (case Context r CTXKeyPID of
        Some pid \<Rightarrow>
          (case pid of AString s \<Rightarrow> Inr (s, None) | _ \<Rightarrow> Inl PanicTypeAssertion)
      | None \<Rightarrow>
          (let (pid, _) = GetSession r SessionKey
           in Inr (pid, None)))"

definition CurrentUserIDP :: "request \<Rightarrow> panic + string" where
  "CurrentUserIDP r =
     (case CurrentUserID r of
        Inl p \<Rightarrow> Inl p
      | Inr (i, err) \<Rightarrow>
          (case err of
             Some e \<Rightarrow> Inl (PanicError e)
           | None \<Rightarrow> if length i = 0 then Inl (PanicError ErrUserNotFound) else Inr i))"

definition currentUser ::
  "'s Authboss \<Rightarrow> string \<Rightarrow> 's world \<Rightarrow> (user option \<times> error option) \<times> 's world" where
  "currentUser a pid w =
     (case callLoad (Server a) pid w of
        (Inl err, w') \<Rightarrow> ((None, Some err), w')
      | (Inr u, w') \<Rightarrow> ((Some u, None), w'))"

definition CurrentUser ::
  "'s Authboss \<Rightarrow> request \<Rightarrow> 's world \<Rightarrow> (panic + (user option \<times> error option)) \<times> 's world" where
  "CurrentUser a r w =
     (case Context r CTXKeyUser of
        Some user \<Rightarrow>
          (case user of
             AUser u \<Rightarrow> (Inr (Some u, None), w)
           | _ \<Rightarrow> (Inl PanicTypeAssertion, w))
      | None \<Rightarrow>
          (case CurrentUserID r of
             Inl p \<Rightarrow> (Inl p, w)
           | Inr (pid, err) \<Rightarrow>
               (case err of
                  Some e \<Rightarrow> (Inr (None, Some e), w)
                | None \<Rightarrow>
                    if length pid = 0 then (Inr (None, Some ErrUserNotFound), w)
                    else (let (res, w') = currentUser a pid w in (Inr res, w')))))"

definition CurrentUserP ::
  "'s Authboss \<Rightarrow> request \<Rightarrow> 's world \<Rightarrow> (panic + user) \<times> 's world" where
  "CurrentUserP a r w =
     (case CurrentUser a r w of
        (Inl p, w') \<Rightarrow> (Inl p, w')
      | (Inr (i, err), w') \<Rightarrow>
          (case err of
             Some e \<Rightarrow> (Inl (PanicError e), w')
           | None \<Rightarrow>
               (case i of
                  None \<Rightarrow> (Inl (PanicError ErrUserNotFound), w')
                | Some u \<Rightarrow> (Inr u, w'))))"

text \<open>
  The loading variants take the request by reference and replace it by one whose context
  holds what was resolved; the model returns the request next to the result.
\<close>

definition LoadCurrentUserID :: "request \<Rightarrow> (panic + (string \<times> error option)) \<times> request" where
  "LoadCurrentUserID r =
     (case Context r CTXKeyPID of
        Some pid \<Rightarrow>
          (case pid of
             AString s \<Rightarrow> (Inr (s, None), r)
           | _ \<Rightarrow> (Inl PanicTypeAssertion, r))
      | None \<Rightarrow>
          (case CurrentUserID r of
             Inl p \<Rightarrow> (Inl p, r)
           | Inr (pid, err) \<Rightarrow>
               (case err of
                  Some e \<Rightarrow> (Inr ('''', Some e), r)
                | None \<Rightarrow>
                    if length pid = 0 then (Inr ('''', None), r)
                    else (Inr (pid, None),
                          r\<lparr>Context := (Context r)(CTXKeyPID \<mapsto> AString pid)\<rparr>))))"

definition LoadCurrentUserIDP :: "request \<Rightarrow> (panic + string) \<times> request" where
  "LoadCurrentUserIDP r =
     (case LoadCurrentUserID r of
        (Inl p, r') \<Rightarrow> (Inl p, r')
      | (Inr (pid, err), r') \<Rightarrow>
          (case err of
             Some e \<Rightarrow> (Inl (PanicError e), r')
           | None \<Rightarrow>
               if length pid = 0 then (Inl (PanicError ErrUserNotFound), r') else (Inr pid, r')))"

definition LoadCurrentUser ::
  "'s Authboss \<Rightarrow> request \<Rightarrow> 's world \<Rightarrow>
     (panic + (user option \<times> error option)) \<times> request \<times> 's world" where
  "LoadCurrentUser a r w =
     (case Context r CTXKeyUser of
        Some user \<Rightarrow>
          (case user of
             AUser u \<Rightarrow> (Inr (Some u, None), r, w)
           | _ \<Rightarrow> (Inl PanicTypeAssertion, r, w))
      | None \<Rightarrow>
          (case LoadCurrentUserID r of
             (Inl p, r1) \<Rightarrow> (Inl p, r1, w)
           | (Inr (pid, err), r1) \<Rightarrow>
               (case err of
                  Some e \<Rightarrow> (Inr (None, Some e), r1, w)
                | None \<Rightarrow>
                    if length pid = 0 then (Inr (None, None), r1, w)
                    else
                      (case currentUser a pid w of
                         ((user, Some e), w') \<Rightarrow> (Inr (None, Some e), r1, w')
                       | ((None, None), w') \<Rightarrow> (Inr (None, None), r1, w')
                       | ((Some u, None), w') \<Rightarrow>
                           (Inr (Some u, None),
                            r1\<lparr>Context := (Context r1)(CTXKeyUser \<mapsto> AUser u)\<rparr>, w')))))"

definition LoadCurrentUserP ::
  "'s Authboss \<Rightarrow> request \<Rightarrow> 's world \<Rightarrow> (panic + user) \<times> request \<times> 's world" where
  "LoadCurrentUserP a r w =
     (case LoadCurrentUser a r w of
        (Inl p, r', w') \<Rightarrow> (Inl p, r', w')
      | (Inr (user, err), r', w') \<Rightarrow>
          (case err of
             Some e \<Rightarrow> (Inl (PanicError e), r', w')
           | None \<Rightarrow>
               (case user of
                  None \<Rightarrow> (Inl (PanicError ErrUserNotFound), r', w')
                | Some u \<Rightarrow> (Inr u, r', w'))))"

text \<open>The number of storage loads among the events.\<close>

definition storageLoads :: "event list \<Rightarrow> nat" where
  "storageLoads evs = length (filter (\<lambda>e. case e of EvLoad pid \<Rightarrow> True | _ \<Rightarrow> False) evs)"

section \<open>The remember module (remember/remember.go)\<close>

definition nNonceSize :: nat where
  "nNonceSize = 32"

text \<open>
  \<^verbatim>\<open>GenerateToken\<close>. The SHA-512 function of the standard library is a parameter
  \<open>Sum512\<close>, and so is the outcome \<open>rnd\<close> of the one call of \<^verbatim>\<open>rand.Read\<close> on the
  nonce part of the buffer: an error, or the bytes read (as many as the slice is long
  when the read succeeds).
\<close>

definition GenerateToken ::
  "(string \<Rightarrow> string) \<Rightarrow> error + string \<Rightarrow> string \<Rightarrow> 's world \<Rightarrow>
     (error + (string \<times> string)) \<times> 's world" where
  "GenerateToken Sum512 rnd pid w =
     (let rawToken = replicate (nNonceSize + length pid + 1) (CHR 0x00);
          rawToken = copy rawToken pid;
          rawToken = rawToken[length pid := CHR '';''];
          w = emit (EvRandRead (length (drop (length pid + 1) rawToken))) w
      in case rnd of
           Inl err \<Rightarrow> (Inl (Wrap err ''failed to create remember me nonce''), w)
         | Inr nonce \<Rightarrow>
             (let rawToken =
                    take (length pid + 1) rawToken @ copy (drop (length pid + 1) rawToken) nonce;
                  sum = Sum512 rawToken
              in (Inr (EncodeToString StdEncoding sum, EncodeToString URLEncoding rawToken), w)))"

text \<open>\<^verbatim>\<open>rmIntf.(bool)\<close> with the comma-ok form: the value and whether the assertion held.\<close>

definition assertBool :: "any \<Rightarrow> bool \<times> bool" where
  "assertBool v = (case v of ABool b \<Rightarrow> (b, True) | _ \<Rightarrow> (False, False))"

definition RememberAfterAuth ::
  "(string \<Rightarrow> string) \<Rightarrow> error + string \<Rightarrow> 's Authboss \<Rightarrow> request \<Rightarrow> bool \<Rightarrow> 's world \<Rightarrow>
     (panic + (bool \<times> error option)) \<times> 's world" where
  "RememberAfterAuth Sum512 rnd r req handled w =
     (case Context req CTXKeyRM of
        None \<Rightarrow> (Inr (False, None), w)
      | Some rmIntf \<Rightarrow>
          (let (rm, ok) = assertBool rmIntf in
           if ok \<and> \<not> rm then (Inr (False, None), w)
           else
             (case CurrentUserP r req w of
                (Inl p, w) \<Rightarrow> (Inl p, w)
              | (Inr user, w) \<Rightarrow>
                  (case GenerateToken Sum512 rnd (GetPID user) w of
                     (Inl err, w) \<Rightarrow> (Inr (False, Some err), w)
                   | (Inr (hash, token), w) \<Rightarrow>
                       (let storer = EnsureCanRemember (Server r) in
                        case callAddRememberToken storer (GetPID user) hash w of
                          (Some err, w) \<Rightarrow> (Inr (False, Some err), w)
                        | (None, w) \<Rightarrow>
                            (let w = PutCookie CookieRemember token w
                             in (Inr (False, None), w)))))))"

definition Authenticate ::
  "(string \<Rightarrow> string) \<Rightarrow> error + string \<Rightarrow> 's Authboss \<Rightarrow> request \<Rightarrow> 's world \<Rightarrow>
     error option \<times> 's world" where
  "Authenticate Sum512 rnd ab req w =
     (let (cookie, ok) = GetCookie req CookieRemember in
      if \<not> ok then (None, w)
      else
        (case DecodeString URLEncoding cookie of
           None \<Rightarrow>
             (let w = DelCookie CookieRemember w;
                  w = Infof ''failed to decode remember me cookie, deleting cookie'' w
              in (None, w))
         | Some rawToken \<Rightarrow>
             (let index = IndexByte rawToken (CHR '';'') in
              if index < 0 then
                (let w = DelCookie CookieRemember w;
                     w = Infof ''failed to decode remember me token, deleting cookie'' w
                 in (None, w))
              else
                (let pid = take (nat index) rawToken;
                     sum = Sum512 rawToken;
                     hash = EncodeToString StdEncoding sum;
                     storer = EnsureCanRemember (Server ab)
                 in case callUseRememberToken storer pid hash w of
                      (Some err, w) \<Rightarrow>
                        if err = ErrTokenNotFound then
                          (let w = Infof ''remember me cookie had a token that was not in storage, deleting cookie'' w;
                               w = DelCookie CookieRemember w
                           in (None, w))
                        else (Some err, w)
                    | (None, w) \<Rightarrow>
                        (case GenerateToken Sum512 rnd pid w of
                           (Inl err, w) \<Rightarrow> (Some err, w)
                         | (Inr (hash, token), w) \<Rightarrow>
                             (case callAddRememberToken storer pid hash w of
                                (Some err, w) \<Rightarrow> (Some (Wrap err ''failed to save me token''), w)
                              | (None, w) \<Rightarrow>
                                  (let w = PutSession SessionKey pid w;
                                       w = PutSession SessionHalfAuthKey ''true'' w;
                                       w = DelCookie CookieRemember w;
                                       w = PutCookie CookieRemember token w
                                   in (None, w))))))))"

text \<open>
  \<^verbatim>\<open>Middleware\<close>: the wrapped handler \<open>next\<close> is any function of the request and the world.
\<close>

definition Middleware ::
  "(string \<Rightarrow> string) \<Rightarrow> error + string \<Rightarrow> 's Authboss \<Rightarrow> (request \<Rightarrow> 's world \<Rightarrow> 'a) \<Rightarrow>
     request \<Rightarrow> 's world \<Rightarrow> 'a" where
  "Middleware Sum512 rnd ab next r w =
     (let w =
        (if Context r CTXKeyPID = None \<and> Context r CTXKeyUser = None then
           (case Authenticate Sum512 rnd ab r w of
              (Some err, w) \<Rightarrow> Errorf ''failed to authenticate user via remember me: %+v'' err w
            | (None, w) \<Rightarrow> w)
         else w)
      in next r w)"

definition AfterPasswordReset ::
  "'s Authboss \<Rightarrow> request \<Rightarrow> bool \<Rightarrow> 's world \<Rightarrow> (panic + (bool \<times> error option)) \<times> 's world" where
  "AfterPasswordReset r req handled w =
     (case CurrentUser r req w of
        (Inl p, w) \<Rightarrow> (Inl p, w)
      | (Inr (user, err), w) \<Rightarrow>
          (case err of
             Some e \<Rightarrow> (Inr (False, Some e), w)
           | None \<Rightarrow>
               (let storer = EnsureCanRemember (Server r) in
                case user of
                  None \<Rightarrow> (Inl PanicNilDereference, w)
                | Some u \<Rightarrow>
                    (let pid = GetPID u;
                         w = DelCookie CookieRemember w;
                         w = Infof (''deleting tokens and rm cookies for user '' @ pid @
                                    '' due to password reset'') w;
                         (err, w) = callDelRememberTokens storer pid w
                     in (Inr (False, err), w)))))"

text \<open>
  Modelled from the spec: a storage collaborator is supplied by the host and none is among
  the sources verified here. This reference collaborator keeps a set of \<open>(pid, hash)\<close> remember
  tokens and the user records by pid, as section 3 and section 6 describe them: adding
  stores the pair, using removes it or reports not-found, deleting removes every pair of
  the pid.
\<close>

record memState =
  tokens :: "(string \<times> string) list"
  users :: "(string \<times> user) list"

definition memStorer :: "memState ServerStorer" where
  "memStorer =
     \<lparr>Load = (\<lambda>pid s.
        (case map_of (users s) pid of None \<Rightarrow> Inl ErrUserNotFound | Some u \<Rightarrow> Inr u, s)),
      AddRememberToken = (\<lambda>pid hash s. (None, s\<lparr>tokens := List.insert (pid, hash) (tokens s)\<rparr>)),
      DelRememberTokens = (\<lambda>pid s. (None, s\<lparr>tokens := filter (\<lambda>t. fst t \<noteq> pid) (tokens s)\<rparr>)),
      UseRememberToken = (\<lambda>pid hash s.
        if (pid, hash) \<in> set (tokens s)
        then (None, s\<lparr>tokens := removeAll (pid, hash) (tokens s)\<rparr>)
        else (Some ErrTokenNotFound, s))\<rparr>"

section \<open>Properties of the base64 model\<close>

lemma validEncoding_Std: "validEncoding StdEncoding"
  by (simp add: validEncoding_def StdEncoding_def padChar_def)

lemma validEncoding_URL: "validEncoding URLEncoding"
  by (simp add: validEncoding_def URLEncoding_def padChar_def)

lemma decodeMap_nth:
  "distinct enc \<Longrightarrow> n < length enc \<Longrightarrow> decodeMap enc (enc ! n) = Some n"
proof (induction enc arbitrary: n)
  case Nil
  then show ?case by simp
next
  case (Cons x xs)
  show ?case
  proof (cases n)
    case 0
    then show ?thesis by simp
  next
    case (Suc m)
    with Cons.prems have "m < length xs" "xs ! m \<in> set xs" "x \<notin> set xs" "distinct xs"
      by auto
    with Cons.IH [of m] Suc show ?thesis by auto
  qed
qed

text \<open>Splitting three bytes into sextets and putting them together again.\<close>

lemma regroup_hi: "(y::nat) < 256 \<Longrightarrow> (x mod 4 * 16 + y div 16) div 16 = x mod 4"
  by simp

lemma regroup_mid_lo: "(y::nat) < 256 \<Longrightarrow> (x mod 4 * 16 + y div 16) mod 16 = y div 16"
  by simp

lemma regroup_mid_hi: "(z::nat) < 256 \<Longrightarrow> (y mod 16 * 4 + z div 64) div 4 = y mod 16"
  by simp

lemma regroup_lo: "(z::nat) < 256 \<Longrightarrow> (y mod 16 * 4 + z div 64) mod 4 = z div 64"
  by simp

lemma regroup_byte1:
  "(y::nat) < 256 \<Longrightarrow> x div 4 * 4 + (x mod 4 * 16 + y div 16) div 16 = x"
  by (simp add: regroup_hi)

lemma regroup_byte2:
  "(y::nat) < 256 \<Longrightarrow> z < 256 \<Longrightarrow>
   (x mod 4 * 16 + y div 16) mod 16 * 16 + (y mod 16 * 4 + z div 64) div 4 = y"
  by (simp add: regroup_mid_lo regroup_mid_hi)

lemma regroup_byte2_pad:
  "(y::nat) < 256 \<Longrightarrow> (x mod 4 * 16 + y div 16) mod 16 * 16 + (y mod 16 * 4) div 4 = y"
  by (simp add: regroup_mid_lo)

lemma regroup_byte3:
  "(z::nat) < 256 \<Longrightarrow> (y mod 16 * 4 + z div 64) mod 4 * 64 + z mod 64 = z"
  by (simp add: regroup_lo)

lemma sextet1_less: "(x::nat) < 256 \<Longrightarrow> x div 4 < 64"
  by simp

lemma sextet2_less: "(y::nat) < 256 \<Longrightarrow> x mod 4 * 16 + y div 16 < 64"
proof -
  assume "y < 256"
  then have "y div 16 < 16" by simp
  moreover have "x mod 4 < 4" by simp
  ultimately show ?thesis by linarith
qed

lemma sextet3_less: "(z::nat) < 256 \<Longrightarrow> y mod 16 * 4 + z div 64 < 64"
proof -
  assume "z < 256"
  then have "z div 64 < 4" by simp
  moreover have "y mod 16 < 16" by simp
  ultimately show ?thesis by linarith
qed

lemma sextet2_pad_less: "(x::nat) mod 4 * 16 < 64"
proof -
  have "x mod 4 < 4" by simp
  then show ?thesis by linarith
qed

lemma sextet3_pad_less: "(y::nat) mod 16 * 4 < 64"
proof -
  have "y mod 16 < 16" by simp
  then show ?thesis by linarith
qed

lemma decodeMap_sextet:
  assumes "validEncoding enc" "n < 64"
  shows "decodeMap enc (enc ! n) = Some n" and "enc ! n \<noteq> padChar"
    and "enc ! n \<noteq> CHR 0x0A" and "enc ! n \<noteq> CHR 0x0D"
proof -
  from assms have n: "n < length enc" and d: "distinct enc"
    by (simp_all add: validEncoding_def)
  from d n show "decodeMap enc (enc ! n) = Some n" by (rule decodeMap_nth)
  from n have "enc ! n \<in> set enc" by simp
  with assms(1) show "enc ! n \<noteq> padChar" "enc ! n \<noteq> CHR 0x0A" "enc ! n \<noteq> CHR 0x0D"
    by (auto simp: validEncoding_def)
qed

lemma decodeQuanta_EncodeToString:
  "validEncoding enc \<Longrightarrow> decodeQuanta enc (EncodeToString enc bs) = Some bs"
proof (induction enc bs rule: EncodeToString.induct)
  case (1 enc a b c rest)
  let ?x = "of_char a :: nat" and ?y = "of_char b :: nat" and ?z = "of_char c :: nat"
  have lt: "?x < 256" "?y < 256" "?z < 256" by simp_all
  note v = "1.prems"
  have s1: "?x div 4 < 64" by (rule sextet1_less [OF lt(1)])
  have s2: "?x mod 4 * 16 + ?y div 16 < 64" by (rule sextet2_less [OF lt(2)])
  have s3: "?y mod 16 * 4 + ?z div 64 < 64" by (rule sextet3_less [OF lt(3)])
  have s4: "?z mod 64 < 64" by simp
  have b1: "?x div 4 * 4 + (?x mod 4 * 16 + ?y div 16) div 16 = ?x"
    by (rule regroup_byte1 [OF lt(2)])
  have b2: "(?x mod 4 * 16 + ?y div 16) mod 16 * 16 + (?y mod 16 * 4 + ?z div 64) div 4 = ?y"
    by (rule regroup_byte2 [OF lt(2) lt(3)])
  have b3: "(?y mod 16 * 4 + ?z div 64) mod 4 * 64 + ?z mod 64 = ?z"
    by (rule regroup_byte3 [OF lt(3)])
  have ih: "decodeQuanta enc (EncodeToString enc rest) = Some rest"
    using "1.IH" v by simp
  show ?case
    using decodeMap_sextet [OF v s1] decodeMap_sextet [OF v s2]
      decodeMap_sextet [OF v s3] decodeMap_sextet [OF v s4] ih b1 b2 b3
    by (simp del: of_char_mod_256 char_of_mod_256)
next
  case (2 enc a b)
  let ?x = "of_char a :: nat" and ?y = "of_char b :: nat"
  have lt: "?x < 256" "?y < 256" by simp_all
  note v = "2.prems"
  have s1: "?x div 4 < 64" by (rule sextet1_less [OF lt(1)])
  have s2: "?x mod 4 * 16 + ?y div 16 < 64" by (rule sextet2_less [OF lt(2)])
  have s3: "?y mod 16 * 4 < 64" by (rule sextet3_pad_less)
  have b1: "?x div 4 * 4 + (?x mod 4 * 16 + ?y div 16) div 16 = ?x"
    by (rule regroup_byte1 [OF lt(2)])
  have b2: "(?x mod 4 * 16 + ?y div 16) mod 16 * 16 + (?y mod 16 * 4) div 4 = ?y"
    by (rule regroup_byte2_pad [OF lt(2)])
  show ?case
    using decodeMap_sextet [OF v s1] decodeMap_sextet [OF v s2]
      decodeMap_sextet [OF v s3] b1 b2
    by (simp del: of_char_mod_256 char_of_mod_256)
next
  case (3 enc a)
  let ?x = "of_char a :: nat"
  note v = "3.prems"
  have s1: "?x div 4 < 64" by (simp add: sextet1_less)
  have s2: "?x mod 4 * 16 < 64" by (rule sextet2_pad_less)
  have b1: "?x div 4 * 4 + (?x mod 4 * 16) div 16 = ?x" by simp
  show ?case
    using decodeMap_sextet [OF v s1] decodeMap_sextet [OF v s2] b1
    by (simp del: of_char_mod_256 char_of_mod_256)
next
  case (4 enc)
  show ?case by simp
qed

lemma EncodeToString_no_newline:
  "validEncoding enc \<Longrightarrow>
   filter (\<lambda>c. c \<noteq> CHR 0x0A \<and> c \<noteq> CHR 0x0D) (EncodeToString enc bs) = EncodeToString enc bs"
proof (induction enc bs rule: EncodeToString.induct)
  case (1 enc a b c rest)
  let ?x = "of_char a :: nat" and ?y = "of_char b :: nat" and ?z = "of_char c :: nat"
  have lt: "?x < 256" "?y < 256" "?z < 256" by simp_all
  note v = "1.prems"
  have s1: "?x div 4 < 64" by (rule sextet1_less [OF lt(1)])
  have s2: "?x mod 4 * 16 + ?y div 16 < 64" by (rule sextet2_less [OF lt(2)])
  have s3: "?y mod 16 * 4 + ?z div 64 < 64" by (rule sextet3_less [OF lt(3)])
  have s4: "?z mod 64 < 64" by simp
  show ?case
    using decodeMap_sextet [OF v s1] decodeMap_sextet [OF v s2]
      decodeMap_sextet [OF v s3] decodeMap_sextet [OF v s4] "1.IH" v
    by simp
next
  case (2 enc a b)
  let ?x = "of_char a :: nat" and ?y = "of_char b :: nat"
  have lt: "?x < 256" "?y < 256" by simp_all
  note v = "2.prems"
  have s1: "?x div 4 < 64" by (rule sextet1_less [OF lt(1)])
  have s2: "?x mod 4 * 16 + ?y div 16 < 64" by (rule sextet2_less [OF lt(2)])
  have s3: "?y mod 16 * 4 < 64" by (rule sextet3_pad_less)
  show ?case
    using decodeMap_sextet [OF v s1] decodeMap_sextet [OF v s2] decodeMap_sextet [OF v s3]
    by (simp add: padChar_def)
next
  case (3 enc a)
  let ?x = "of_char a :: nat"
  note v = "3.prems"
  have s1: "?x div 4 < 64" by (simp add: sextet1_less)
  have s2: "?x mod 4 * 16 < 64" by (rule sextet2_pad_less)
  show ?case
    using decodeMap_sextet [OF v s1] decodeMap_sextet [OF v s2]
    by (simp add: padChar_def)
next
  case (4 enc)
  show ?case by simp
qed

lemma DecodeString_EncodeToString:
  "validEncoding enc \<Longrightarrow> DecodeString enc (EncodeToString enc bs) = Some bs"
  by (simp add: DecodeString_def EncodeToString_no_newline decodeQuanta_EncodeToString)

section \<open>Properties of the token layout\<close>

lemma IndexByte_neg_iff: "IndexByte xs c < 0 \<longleftrightarrow> c \<notin> set xs"
  by (induction xs) (auto simp: Let_def)

lemma take_IndexByte:
  "c \<in> set xs \<Longrightarrow> take (nat (IndexByte xs c)) xs = takeWhile (\<lambda>x. x \<noteq> c) xs"
proof (induction xs)
  case Nil
  then show ?case by simp
next
  case (Cons x xs)
  show ?case
  proof (cases "x = c")
    case True
    then show ?thesis by simp
  next
    case False
    with Cons.prems have mem: "c \<in> set xs" by simp
    then have "\<not> IndexByte xs c < 0" by (simp add: IndexByte_neg_iff)
    then have "nat (IndexByte xs c + 1) = Suc (nat (IndexByte xs c))" by simp
    with False mem Cons.IH show ?thesis by (simp add: Let_def IndexByte_neg_iff)
  qed
qed

lemma rawToken_buffer:
  "(copy (replicate (nNonceSize + length pid + 1) (CHR 0x00)) pid)[length pid := CHR '';'']
     = pid @ CHR '';'' # replicate nNonceSize (CHR 0x00)"
proof -
  let ?z = "CHR 0x00"
  have "nNonceSize + length pid + 1 = length pid + Suc nNonceSize" by simp
  then have "replicate (nNonceSize + length pid + 1) ?z
      = replicate (length pid) ?z @ ?z # replicate nNonceSize ?z"
    by (simp only: replicate_add replicate_Suc)
  then have "copy (replicate (nNonceSize + length pid + 1) ?z) pid
      = pid @ ?z # replicate nNonceSize ?z"
    by (simp add: copy_def)
  then show ?thesis by (simp add: list_update_append)
qed

lemma rawToken_layout:
  "length nonce = nNonceSize \<Longrightarrow>
   take (length pid + 1) ((copy (replicate (nNonceSize + length pid + 1) (CHR 0x00)) pid)[length pid := CHR '';''])
     @ copy (drop (length pid + 1) ((copy (replicate (nNonceSize + length pid + 1) (CHR 0x00)) pid)[length pid := CHR '';''])) nonce
   = pid @ CHR '';'' # nonce"
  by (simp only: rawToken_buffer) (simp add: copy_def)

lemma rawToken_nonce_slice:
  "length (drop (length pid + 1) ((copy (replicate (nNonceSize + length pid + 1) (CHR 0x00)) pid)[length pid := CHR '';''])) = nNonceSize"
  by (simp only: rawToken_buffer) simp

lemma GenerateToken_Inr:
  "length nonce = nNonceSize \<Longrightarrow>
   GenerateToken Sum512 (Inr nonce) pid w =
     (Inr (EncodeToString StdEncoding (Sum512 (pid @ CHR '';'' # nonce)),
           EncodeToString URLEncoding (pid @ CHR '';'' # nonce)),
      emit (EvRandRead nNonceSize) w)"
  unfolding GenerateToken_def Let_def
  by (simp only: rawToken_layout rawToken_nonce_slice sum.case)

lemma GenerateToken_Inl:
  "GenerateToken Sum512 (Inl e) pid w =
     (Inl (Wrap e ''failed to create remember me nonce''), emit (EvRandRead nNonceSize) w)"
  unfolding GenerateToken_def Let_def
  by (simp only: rawToken_nonce_slice sum.case)

lemma snd_GenerateToken:
  "snd (GenerateToken Sum512 rnd pid w) = emit (EvRandRead nNonceSize) w"
  unfolding GenerateToken_def Let_def
  by (cases rnd) (simp_all only: rawToken_nonce_slice sum.case snd_conv)

section \<open>The path of a well-formed cookie through Authenticate\<close>

lemma Authenticate_parsed:
  assumes "cookieState req CookieRemember = Some cookie"
    and "DecodeString URLEncoding cookie = Some raw"
    and "CHR '';'' \<in> set raw"
  shows "Authenticate Sum512 rnd ab req w =
     (case callUseRememberToken (Server ab) (takeWhile (\<lambda>c. c \<noteq> CHR '';'') raw)
             (EncodeToString StdEncoding (Sum512 raw)) w of
        (Some err, w1) \<Rightarrow>
          if err = ErrTokenNotFound then
            (None, DelCookie CookieRemember
               (Infof ''remember me cookie had a token that was not in storage, deleting cookie'' w1))
          else (Some err, w1)
      | (None, w1) \<Rightarrow>
          (case GenerateToken Sum512 rnd (takeWhile (\<lambda>c. c \<noteq> CHR '';'') raw) w1 of
             (Inl err, w2) \<Rightarrow> (Some err, w2)
           | (Inr (hash, token), w2) \<Rightarrow>
               (case callAddRememberToken (Server ab) (takeWhile (\<lambda>c. c \<noteq> CHR '';'') raw) hash w2 of
                  (Some err, w3) \<Rightarrow> (Some (Wrap err ''failed to save me token''), w3)
                | (None, w3) \<Rightarrow>
                    (None, PutCookie CookieRemember token
                       (DelCookie CookieRemember
                          (PutSession SessionHalfAuthKey ''true''
                             (PutSession SessionKey (takeWhile (\<lambda>c. c \<noteq> CHR '';'') raw) w3)))))))"
  using assms
  by (auto simp: Authenticate_def Let_def EnsureCanRemember_def GetCookie_def
      IndexByte_neg_iff take_IndexByte split: prod.splits option.splits sum.splits)

lemma trace_callUseRememberToken:
  "trace (snd (callUseRememberToken st pid hash w)) = trace w @ [EvUseRememberToken pid hash]"
  by (simp add: callUseRememberToken_def emit_def split: prod.splits)

lemma trace_callAddRememberToken:
  "trace (snd (callAddRememberToken st pid hash w)) = trace w @ [EvAddRememberToken pid hash]"
  by (simp add: callAddRememberToken_def emit_def split: prod.splits)

lemma Authenticate_consumes_first:
  assumes "cookieState req CookieRemember = Some cookie"
    and "DecodeString URLEncoding cookie = Some raw"
    and "CHR '';'' \<in> set raw"
  shows "\<exists>rest. trace (snd (Authenticate Sum512 rnd ab req w)) =
           trace w @ EvUseRememberToken (takeWhile (\<lambda>c. c \<noteq> CHR '';'') raw)
                       (EncodeToString StdEncoding (Sum512 raw)) # rest"
proof -
  let ?pid = "takeWhile (\<lambda>c. c \<noteq> CHR '';'') raw"
  let ?hash = "EncodeToString StdEncoding (Sum512 raw)"
  obtain e1 w1 where u: "callUseRememberToken (Server ab) ?pid ?hash w = (e1, w1)"
    by (cases "callUseRememberToken (Server ab) ?pid ?hash w")
  have t1: "trace w1 = trace w @ [EvUseRememberToken ?pid ?hash]"
    using trace_callUseRememberToken [of "Server ab" ?pid ?hash w] u by simp
  obtain g w2 where g: "GenerateToken Sum512 rnd ?pid w1 = (g, w2)"
    by (cases "GenerateToken Sum512 rnd ?pid w1")
  have t2: "trace w2 = trace w1 @ [EvRandRead nNonceSize]"
    using snd_GenerateToken [of Sum512 rnd ?pid w1] g by (simp add: emit_def)
  show ?thesis
  proof (cases e1)
    case (Some err)
    with u t1 show ?thesis
      by (simp add: Authenticate_parsed [OF assms] DelCookie_def Infof_def emit_def)
  next
    case None
    show ?thesis
    proof (cases g)
      case (Inl err)
      with None u g t1 t2 show ?thesis
        by (simp add: Authenticate_parsed [OF assms])
    next
      case (Inr ht)
      obtain h t where ht: "ht = (h, t)" by (cases ht)
      obtain e3 w3 where a: "callAddRememberToken (Server ab) ?pid h w2 = (e3, w3)"
        by (cases "callAddRememberToken (Server ab) ?pid h w2")
      have t3: "trace w3 = trace w2 @ [EvAddRememberToken ?pid h]"
        using trace_callAddRememberToken [of "Server ab" ?pid h w2] a by simp
      from None u g Inr ht a t1 t2 t3 show ?thesis
        by (cases e3)
          (simp_all add: Authenticate_parsed [OF assms] PutCookie_def DelCookie_def
            PutSession_def emit_def)
    qed
  qed
qed

section \<open>Token issue and round trip\<close>

text \<open>
  Claim C2. For every pid and every nonce of \<^const>\<open>nNonceSize\<close> (32) bytes that the random
  source supplies, \<^const>\<open>GenerateToken\<close> returns as token the URL-safe base64 of the raw
  bytes \<open>pid || ';' || nonce\<close> and as hash the standard base64 of the SHA-512 of the same
  bytes. Decoding the token gives the raw bytes back, and \<^const>\<open>Authenticate\<close>, given the
  token as remember cookie, presents exactly that hash to \<^verbatim>\<open>UseRememberToken\<close>: its first
  event is the consumption under the stored hash.
\<close>

theorem GenerateToken_roundtrip:
  assumes "length nonce = nNonceSize"
  shows "fst (GenerateToken Sum512 (Inr nonce) pid w) =
           Inr (EncodeToString StdEncoding (Sum512 (pid @ CHR '';'' # nonce)),
                EncodeToString URLEncoding (pid @ CHR '';'' # nonce))
       \<and> DecodeString URLEncoding (EncodeToString URLEncoding (pid @ CHR '';'' # nonce)) =
           Some (pid @ CHR '';'' # nonce)
       \<and> (cookieState req CookieRemember =
             Some (EncodeToString URLEncoding (pid @ CHR '';'' # nonce)) \<longrightarrow>
           (\<exists>p rest. trace (snd (Authenticate Sum512 rnd ab req w')) =
              trace w' @ EvUseRememberToken p
                 (EncodeToString StdEncoding (Sum512 (pid @ CHR '';'' # nonce))) # rest))"
proof (intro conjI impI)
  show "fst (GenerateToken Sum512 (Inr nonce) pid w) =
           Inr (EncodeToString StdEncoding (Sum512 (pid @ CHR '';'' # nonce)),
                EncodeToString URLEncoding (pid @ CHR '';'' # nonce))"
    by (simp add: GenerateToken_Inr [OF assms])
  show dec: "DecodeString URLEncoding (EncodeToString URLEncoding (pid @ CHR '';'' # nonce)) =
           Some (pid @ CHR '';'' # nonce)"
    by (rule DecodeString_EncodeToString [OF validEncoding_URL])
  assume c: "cookieState req CookieRemember =
             Some (EncodeToString URLEncoding (pid @ CHR '';'' # nonce))"
  have m: "CHR '';'' \<in> set (pid @ CHR '';'' # nonce)" by simp
  from Authenticate_consumes_first [OF c dec m, of Sum512 rnd ab w']
  show "\<exists>p rest. trace (snd (Authenticate Sum512 rnd ab req w')) =
              trace w' @ EvUseRememberToken p
                 (EncodeToString StdEncoding (Sum512 (pid @ CHR '';'' # nonce))) # rest"
    by blast
qed


theorem GenerateToken_roundtrip_witness:
  "length (replicate 32 (CHR 0x00)) = nNonceSize
   \<and> fst (GenerateToken (\<lambda>bs. take 3 bs) (Inr (replicate 32 (CHR 0x00))) ''u42''
          \<lparr>storage = (), trace = []\<rparr>) =
        Inr (''dTQy'', ''dTQyOwAAAAAAAAAAAAAAAAAAAAAAAAAAAAAAAAAAAAAAAAAA'')
   \<and> DecodeString URLEncoding ''dTQyOwAAAAAAAAAAAAAAAAAAAAAAAAAAAAAAAAAAAAAAAAAA'' =
        Some (''u42;'' @ replicate 32 (CHR 0x00))
   \<and> cookieState \<lparr>Context = Map.empty,
          cookieState = [CookieRemember \<mapsto> ''dTQyOwAAAAAAAAAAAAAAAAAAAAAAAAAAAAAAAAAAAAAAAAAA''],
          sessionState = Map.empty\<rparr> CookieRemember =
        Some ''dTQyOwAAAAAAAAAAAAAAAAAAAAAAAAAAAAAAAAAAAAAAAAAA''
   \<and> (\<exists>p rest. trace (snd (Authenticate (\<lambda>bs. take 3 bs) (Inl (Err ''no entropy''))
          \<lparr>Server = memStorer\<rparr>
          \<lparr>Context = Map.empty,
            cookieState = [CookieRemember \<mapsto> ''dTQyOwAAAAAAAAAAAAAAAAAAAAAAAAAAAAAAAAAAAAAAAAAA''],
            sessionState = Map.empty\<rparr>
          \<lparr>storage = \<lparr>tokens = [(''u42'', ''dTQy'')], users = []\<rparr>, trace = []\<rparr>)) =
        trace \<lparr>storage = \<lparr>tokens = [(''u42'', ''dTQy'')], users = []\<rparr>, trace = []\<rparr>
          @ EvUseRememberToken p ''dTQy'' # rest)"
proof -
  have len: "length (replicate 32 (CHR 0x00)) = nNonceSize"
    by (simp add: nNonceSize_def)
  have tok: "EncodeToString URLEncoding (''u42'' @ CHR '';'' # replicate 32 (CHR 0x00)) =
      ''dTQyOwAAAAAAAAAAAAAAAAAAAAAAAAAAAAAAAAAAAAAAAAAA''"
    by code_simp
  have hash: "EncodeToString StdEncoding (take 3 (''u42'' @ CHR '';'' # replicate 32 (CHR 0x00))) =
      ''dTQy''"
    by code_simp
  show ?thesis
    using GenerateToken_roundtrip [OF len, of "\<lambda>bs. take 3 bs" "''u42''"
        "\<lparr>storage = (), trace = []\<rparr>"
        "\<lparr>Context = Map.empty,
          cookieState = [CookieRemember \<mapsto> ''dTQyOwAAAAAAAAAAAAAAAAAAAAAAAAAAAAAAAAAAAAAAAAAA''],
          sessionState = Map.empty\<rparr>"
        "Inl (Err ''no entropy'')" "\<lparr>Server = memStorer\<rparr>"
        "\<lparr>storage = \<lparr>tokens = [(''u42'', ''dTQy'')], users = []\<rparr>, trace = []\<rparr>"]
    unfolding tok hash
    by (simp add: nNonceSize_def)
qed

section \<open>Calls of the collaborator, by their results\<close>

lemma callUseRememberToken_eq:
  "UseRememberToken st pid hash (storage w) = (err, s) \<Longrightarrow>
   callUseRememberToken st pid hash w =
     (err, w\<lparr>storage := s, trace := trace w @ [EvUseRememberToken pid hash]\<rparr>)"
  by (simp add: callUseRememberToken_def emit_def)

lemma callAddRememberToken_eq:
  "AddRememberToken st pid hash (storage w) = (err, s) \<Longrightarrow>
   callAddRememberToken st pid hash w =
     (err, w\<lparr>storage := s, trace := trace w @ [EvAddRememberToken pid hash]\<rparr>)"
  by (simp add: callAddRememberToken_def emit_def)

lemma callDelRememberTokens_eq:
  "DelRememberTokens st pid (storage w) = (err, s) \<Longrightarrow>
   callDelRememberTokens st pid w =
     (err, w\<lparr>storage := s, trace := trace w @ [EvDelRememberTokens pid]\<rparr>)"
  by (simp add: callDelRememberTokens_def emit_def)

lemma callLoad_eq:
  "Load st pid (storage w) = (res, s) \<Longrightarrow>
   callLoad st pid w = (res, w\<lparr>storage := s, trace := trace w @ [EvLoad pid]\<rparr>)"
  by (simp add: callLoad_def emit_def)

section \<open>The pid read back from a token\<close>

text \<open>
  Claim C9. \<^const>\<open>Authenticate\<close> takes as pid the decoded bytes before the first \<open>;\<close>. For a
  token that \<^const>\<open>GenerateToken\<close> issued for \<open>pid\<close>, the consume call is therefore made
  under \<open>takeWhile (\<lambda>c. c \<noteq> CHR '';'') pid\<close>: the issuing pid itself when it holds no \<open>;\<close>,
  and a proper prefix of it, hence another pid, when it does.
\<close>

theorem Authenticate_extracted_pid:
  assumes "length nonce = nNonceSize"
    and "fst (GenerateToken Sum512 (Inr nonce) pid w0) = Inr (hash, token)"
    and "cookieState req CookieRemember = Some token"
  shows "(\<exists>rest. trace (snd (Authenticate Sum512 rnd ab req w)) =
            trace w @ EvUseRememberToken (takeWhile (\<lambda>c. c \<noteq> CHR '';'') pid) hash # rest)
       \<and> (CHR '';'' \<notin> set pid \<longrightarrow> takeWhile (\<lambda>c. c \<noteq> CHR '';'') pid = pid)
       \<and> (CHR '';'' \<in> set pid \<longrightarrow> strict_prefix (takeWhile (\<lambda>c. c \<noteq> CHR '';'') pid) pid)"
proof (intro conjI impI)
  let ?raw = "pid @ CHR '';'' # nonce"
  from assms(1,2) have tok: "token = EncodeToString URLEncoding ?raw"
    and h: "hash = EncodeToString StdEncoding (Sum512 ?raw)"
    by (simp_all add: GenerateToken_Inr)
  have dec: "DecodeString URLEncoding token = Some ?raw"
    unfolding tok by (rule DecodeString_EncodeToString [OF validEncoding_URL])
  have m: "CHR '';'' \<in> set ?raw" by simp
  have p: "takeWhile (\<lambda>c. c \<noteq> CHR '';'') ?raw = takeWhile (\<lambda>c. c \<noteq> CHR '';'') pid"
    by (simp add: takeWhile_tail)
  from Authenticate_consumes_first [OF assms(3) dec m, of Sum512 rnd ab w]
  show "\<exists>rest. trace (snd (Authenticate Sum512 rnd ab req w)) =
            trace w @ EvUseRememberToken (takeWhile (\<lambda>c. c \<noteq> CHR '';'') pid) hash # rest"
    unfolding p h .
next
  assume "CHR '';'' \<notin> set pid"
  then show "takeWhile (\<lambda>c. c \<noteq> CHR '';'') pid = pid"
    by auto
next
  assume "CHR '';'' \<in> set pid"
  then have "takeWhile (\<lambda>c. c \<noteq> CHR '';'') pid \<noteq> pid"
    by auto
  moreover have "prefix (takeWhile (\<lambda>c. c \<noteq> CHR '';'') pid) pid"
    by (rule takeWhile_is_prefix)
  ultimately show "strict_prefix (takeWhile (\<lambda>c. c \<noteq> CHR '';'') pid) pid"
    by (simp add: strict_prefix_def)
qed

theorem Authenticate_extracted_pid_witness:
  "length (replicate 32 (CHR 0x00)) = nNonceSize
   \<and> fst (GenerateToken (take 3) (Inr (replicate 32 (CHR 0x00))) ''u42''
          \<lparr>storage = (), trace = []\<rparr>) =
        Inr (''dTQy'', ''dTQyOwAAAAAAAAAAAAAAAAAAAAAAAAAAAAAAAAAAAAAAAAAA'')
   \<and> cookieState \<lparr>Context = Map.empty,
          cookieState = [CookieRemember \<mapsto> ''dTQyOwAAAAAAAAAAAAAAAAAAAAAAAAAAAAAAAAAAAAAAAAAA''],
          sessionState = Map.empty\<rparr> CookieRemember =
        Some ''dTQyOwAAAAAAAAAAAAAAAAAAAAAAAAAAAAAAAAAAAAAAAAAA''
   \<and> CHR '';'' \<notin> set ''u42''
   \<and> (\<exists>rest. trace (snd (Authenticate (take 3) (Inl (Err ''no entropy''))
          \<lparr>Server = memStorer\<rparr>
          \<lparr>Context = Map.empty,
            cookieState = [CookieRemember \<mapsto> ''dTQyOwAAAAAAAAAAAAAAAAAAAAAAAAAAAAAAAAAAAAAAAAAA''],
            sessionState = Map.empty\<rparr>
          \<lparr>storage = \<lparr>tokens = [(''u42'', ''dTQy'')], users = []\<rparr>, trace = []\<rparr>)) =
        [] @ EvUseRememberToken ''u42'' ''dTQy'' # rest)
   \<and> fst (GenerateToken (take 3) (Inr (replicate 32 (CHR 0x00))) ''a;b''
          \<lparr>storage = (), trace = []\<rparr>) =
        Inr (''YTti'', ''YTtiOwAAAAAAAAAAAAAAAAAAAAAAAAAAAAAAAAAAAAAAAAAA'')
   \<and> cookieState \<lparr>Context = Map.empty,
          cookieState = [CookieRemember \<mapsto> ''YTtiOwAAAAAAAAAAAAAAAAAAAAAAAAAAAAAAAAAAAAAAAAAA''],
          sessionState = Map.empty\<rparr> CookieRemember =
        Some ''YTtiOwAAAAAAAAAAAAAAAAAAAAAAAAAAAAAAAAAAAAAAAAAA''
   \<and> CHR '';'' \<in> set ''a;b''
   \<and> strict_prefix ''a'' ''a;b''
   \<and> (\<exists>rest. trace (snd (Authenticate (take 3) (Inl (Err ''no entropy''))
          \<lparr>Server = memStorer\<rparr>
          \<lparr>Context = Map.empty,
            cookieState = [CookieRemember \<mapsto> ''YTtiOwAAAAAAAAAAAAAAAAAAAAAAAAAAAAAAAAAAAAAAAAAA''],
            sessionState = Map.empty\<rparr>
          \<lparr>storage = \<lparr>tokens = [(''a;b'', ''YTti'')], users = []\<rparr>, trace = []\<rparr>)) =
        [] @ EvUseRememberToken ''a'' ''YTti'' # rest)"
proof -
  let ?nonce = "replicate 32 (CHR 0x00)"
  let ?w0 = "\<lparr>storage = (), trace = []\<rparr>"
  let ?tok1 = "''dTQyOwAAAAAAAAAAAAAAAAAAAAAAAAAAAAAAAAAAAAAAAAAA''"
  let ?tok2 = "''YTtiOwAAAAAAAAAAAAAAAAAAAAAAAAAAAAAAAAAAAAAAAAAA''"
  let ?req1 = "\<lparr>Context = Map.empty, cookieState = [CookieRemember \<mapsto> ?tok1],
      sessionState = Map.empty\<rparr>"
  let ?req2 = "\<lparr>Context = Map.empty, cookieState = [CookieRemember \<mapsto> ?tok2],
      sessionState = Map.empty\<rparr>"
  have len: "length ?nonce = nNonceSize" by (simp add: nNonceSize_def)
  have g1: "fst (GenerateToken (take 3) (Inr ?nonce) ''u42'' ?w0) = Inr (''dTQy'', ?tok1)"
    by code_simp
  have g2: "fst (GenerateToken (take 3) (Inr ?nonce) ''a;b'' ?w0) = Inr (''YTti'', ?tok2)"
    by code_simp
  have c1: "cookieState ?req1 CookieRemember = Some ?tok1" by simp
  have c2: "cookieState ?req2 CookieRemember = Some ?tok2" by simp
  have m1: "CHR '';'' \<notin> set ''u42''" by simp
  have m2: "CHR '';'' \<in> set ''a;b''" by simp
  have p1: "takeWhile (\<lambda>c. c \<noteq> CHR '';'') ''u42'' = ''u42''" by simp
  have p2: "takeWhile (\<lambda>c. c \<noteq> CHR '';'') ''a;b'' = ''a''" by simp
  note t1 = Authenticate_extracted_pid [OF len g1 c1, of "Inl (Err ''no entropy'')"
      "\<lparr>Server = memStorer\<rparr>"
      "\<lparr>storage = \<lparr>tokens = [(''u42'', ''dTQy'')], users = []\<rparr>, trace = []\<rparr>", unfolded p1]
  note t2 = Authenticate_extracted_pid [OF len g2 c2, of "Inl (Err ''no entropy'')"
      "\<lparr>Server = memStorer\<rparr>"
      "\<lparr>storage = \<lparr>tokens = [(''a;b'', ''YTti'')], users = []\<rparr>, trace = []\<rparr>", unfolded p2]
  from t1 t2 len g1 g2 c1 c2 m1 m2 show ?thesis
    by simp
qed




section \<open>Cookies that cannot be used\<close>

text \<open>
  Claim C3. With no remember cookie \<^const>\<open>Authenticate\<close> returns nil and leaves the world
  as it is: no cookie is deleted, the collaborator is not called. With a cookie that is not
  URL-safe base64, or whose bytes hold no \<open>;\<close>, or whose \<open>(pid, hash)\<close> the collaborator
  reports as not found, it returns nil and deletes the remember cookie.
\<close>

theorem Authenticate_unusable_cookie:
  "(cookieState req CookieRemember = None \<longrightarrow>
      Authenticate Sum512 rnd ab req w = (None, w))
   \<and> (cookieState req CookieRemember = Some cookie \<and> DecodeString URLEncoding cookie = None \<longrightarrow>
      Authenticate Sum512 rnd ab req w =
        (None, w\<lparr>trace := trace w @
           [EvDelCookie CookieRemember,
            EvInfof ''failed to decode remember me cookie, deleting cookie'']\<rparr>))
   \<and> (cookieState req CookieRemember = Some cookie \<and> DecodeString URLEncoding cookie = Some raw \<and>
      CHR '';'' \<notin> set raw \<longrightarrow>
      Authenticate Sum512 rnd ab req w =
        (None, w\<lparr>trace := trace w @
           [EvDelCookie CookieRemember,
            EvInfof ''failed to decode remember me token, deleting cookie'']\<rparr>))
   \<and> (cookieState req CookieRemember = Some cookie \<and> DecodeString URLEncoding cookie = Some raw \<and>
      CHR '';'' \<in> set raw \<and>
      UseRememberToken (Server ab) (takeWhile (\<lambda>c. c \<noteq> CHR '';'') raw)
        (EncodeToString StdEncoding (Sum512 raw)) (storage w) = (Some ErrTokenNotFound, s) \<longrightarrow>
      Authenticate Sum512 rnd ab req w =
        (None, w\<lparr>storage := s, trace := trace w @
           [EvUseRememberToken (takeWhile (\<lambda>c. c \<noteq> CHR '';'') raw)
              (EncodeToString StdEncoding (Sum512 raw)),
            EvInfof ''remember me cookie had a token that was not in storage, deleting cookie'',
            EvDelCookie CookieRemember]\<rparr>))"
proof (intro conjI impI)
  assume "cookieState req CookieRemember = None"
  then show "Authenticate Sum512 rnd ab req w = (None, w)"
    by (simp add: Authenticate_def GetCookie_def)
next
  assume "cookieState req CookieRemember = Some cookie \<and> DecodeString URLEncoding cookie = None"
  then show "Authenticate Sum512 rnd ab req w =
        (None, w\<lparr>trace := trace w @
           [EvDelCookie CookieRemember,
            EvInfof ''failed to decode remember me cookie, deleting cookie'']\<rparr>)"
    by (simp add: Authenticate_def GetCookie_def DelCookie_def Infof_def emit_def)
next
  assume "cookieState req CookieRemember = Some cookie \<and>
      DecodeString URLEncoding cookie = Some raw \<and> CHR '';'' \<notin> set raw"
  then show "Authenticate Sum512 rnd ab req w =
        (None, w\<lparr>trace := trace w @
           [EvDelCookie CookieRemember,
            EvInfof ''failed to decode remember me token, deleting cookie'']\<rparr>)"
    by (simp add: Authenticate_def GetCookie_def IndexByte_neg_iff DelCookie_def Infof_def
        emit_def)
next
  assume a: "cookieState req CookieRemember = Some cookie \<and>
      DecodeString URLEncoding cookie = Some raw \<and> CHR '';'' \<in> set raw \<and>
      UseRememberToken (Server ab) (takeWhile (\<lambda>c. c \<noteq> CHR '';'') raw)
        (EncodeToString StdEncoding (Sum512 raw)) (storage w) = (Some ErrTokenNotFound, s)"
  then have c: "cookieState req CookieRemember = Some cookie"
    and d: "DecodeString URLEncoding cookie = Some raw" and m: "CHR '';'' \<in> set raw"
    and u: "UseRememberToken (Server ab) (takeWhile (\<lambda>c. c \<noteq> CHR '';'') raw)
        (EncodeToString StdEncoding (Sum512 raw)) (storage w) = (Some ErrTokenNotFound, s)"
    by simp_all
  show "Authenticate Sum512 rnd ab req w =
        (None, w\<lparr>storage := s, trace := trace w @
           [EvUseRememberToken (takeWhile (\<lambda>c. c \<noteq> CHR '';'') raw)
              (EncodeToString StdEncoding (Sum512 raw)),
            EvInfof ''remember me cookie had a token that was not in storage, deleting cookie'',
            EvDelCookie CookieRemember]\<rparr>)"
    by (simp add: Authenticate_parsed [OF c d m] callUseRememberToken_eq [OF u]
        DelCookie_def Infof_def emit_def)
qed

theorem Authenticate_unusable_cookie_witness:
  "cookieState \<lparr>Context = Map.empty, cookieState = Map.empty, sessionState = Map.empty\<rparr>
       CookieRemember = None
   \<and> Authenticate (take 3) (Inl (Err ''no entropy'')) \<lparr>Server = memStorer\<rparr>
        \<lparr>Context = Map.empty, cookieState = Map.empty, sessionState = Map.empty\<rparr>
        \<lparr>storage = \<lparr>tokens = [(''u42'', ''dTQy'')], users = []\<rparr>, trace = []\<rparr> =
      (None, \<lparr>storage = \<lparr>tokens = [(''u42'', ''dTQy'')], users = []\<rparr>, trace = []\<rparr>)
   \<and> DecodeString URLEncoding ''not base64!'' = None
   \<and> Authenticate (take 3) (Inl (Err ''no entropy'')) \<lparr>Server = memStorer\<rparr>
        \<lparr>Context = Map.empty, cookieState = [CookieRemember \<mapsto> ''not base64!''],
          sessionState = Map.empty\<rparr>
        \<lparr>storage = \<lparr>tokens = [(''u42'', ''dTQy'')], users = []\<rparr>, trace = []\<rparr> =
      (None, \<lparr>storage = \<lparr>tokens = [(''u42'', ''dTQy'')], users = []\<rparr>,
               trace = [EvDelCookie CookieRemember,
                        EvInfof ''failed to decode remember me cookie, deleting cookie'']\<rparr>)
   \<and> DecodeString URLEncoding ''dTQy'' = Some ''u42'' \<and> CHR '';'' \<notin> set ''u42''
   \<and> Authenticate (take 3) (Inl (Err ''no entropy'')) \<lparr>Server = memStorer\<rparr>
        \<lparr>Context = Map.empty, cookieState = [CookieRemember \<mapsto> ''dTQy''],
          sessionState = Map.empty\<rparr>
        \<lparr>storage = \<lparr>tokens = [(''u42'', ''dTQy'')], users = []\<rparr>, trace = []\<rparr> =
      (None, \<lparr>storage = \<lparr>tokens = [(''u42'', ''dTQy'')], users = []\<rparr>,
               trace = [EvDelCookie CookieRemember,
                        EvInfof ''failed to decode remember me token, deleting cookie'']\<rparr>)
   \<and> DecodeString URLEncoding ''dTQyOwAAAAAAAAAAAAAAAAAAAAAAAAAAAAAAAAAAAAAAAAAA'' =
        Some (''u42;'' @ replicate 32 (CHR 0x00))
   \<and> CHR '';'' \<in> set (''u42;'' @ replicate 32 (CHR 0x00))
   \<and> UseRememberToken (Server \<lparr>Server = memStorer\<rparr>) ''u42'' ''dTQy''
        \<lparr>tokens = [(''u42'', ''AAAA'')], users = []\<rparr> =
      (Some ErrTokenNotFound, \<lparr>tokens = [(''u42'', ''AAAA'')], users = []\<rparr>)
   \<and> Authenticate (take 3) (Inl (Err ''no entropy'')) \<lparr>Server = memStorer\<rparr>
        \<lparr>Context = Map.empty,
          cookieState = [CookieRemember \<mapsto> ''dTQyOwAAAAAAAAAAAAAAAAAAAAAAAAAAAAAAAAAAAAAAAAAA''],
          sessionState = Map.empty\<rparr>
        \<lparr>storage = \<lparr>tokens = [(''u42'', ''AAAA'')], users = []\<rparr>, trace = []\<rparr> =
      (None, \<lparr>storage = \<lparr>tokens = [(''u42'', ''AAAA'')], users = []\<rparr>,
               trace = [EvUseRememberToken ''u42'' ''dTQy'',
                        EvInfof ''remember me cookie had a token that was not in storage, deleting cookie'',
                        EvDelCookie CookieRemember]\<rparr>)"
proof -
  let ?tok = "''dTQyOwAAAAAAAAAAAAAAAAAAAAAAAAAAAAAAAAAAAAAAAAAA''"
  let ?raw = "''u42;'' @ replicate 32 (CHR 0x00)"
  let ?rnd = "Inl (Err ''no entropy'') :: error + string"
  let ?ab = "\<lparr>Server = memStorer\<rparr>"
  let ?w = "\<lparr>storage = \<lparr>tokens = [(''u42'', ''dTQy'')], users = []\<rparr>, trace = []\<rparr>"
  let ?w4 = "\<lparr>storage = \<lparr>tokens = [(''u42'', ''AAAA'')], users = []\<rparr>, trace = []\<rparr>"
  have d2: "DecodeString URLEncoding ''not base64!'' = None" by code_simp
  have d3: "DecodeString URLEncoding ''dTQy'' = Some ''u42''" by code_simp
  have d4: "DecodeString URLEncoding ?tok = Some ?raw" by code_simp
  have p4: "takeWhile (\<lambda>c. c \<noteq> CHR '';'') ?raw = ''u42''" by simp
  have h4: "EncodeToString StdEncoding (take 3 ?raw) = ''dTQy''" by code_simp
  have u4: "UseRememberToken (Server ?ab) ''u42'' ''dTQy'' (storage ?w4) =
      (Some ErrTokenNotFound, \<lparr>tokens = [(''u42'', ''AAAA'')], users = []\<rparr>)"
    by (simp add: memStorer_def)
  note t1 = Authenticate_unusable_cookie [where ?Sum512.0 = "take 3" and rnd = ?rnd and ab = ?ab
      and w = ?w
      and req = "\<lparr>Context = Map.empty, cookieState = Map.empty, sessionState = Map.empty\<rparr>",
      THEN conjunct1]
  note t2 = Authenticate_unusable_cookie [where ?Sum512.0 = "take 3" and rnd = ?rnd and ab = ?ab
      and w = ?w and cookie = "''not base64!''"
      and req = "\<lparr>Context = Map.empty, cookieState = [CookieRemember \<mapsto> ''not base64!''],
          sessionState = Map.empty\<rparr>",
      THEN conjunct2, THEN conjunct1]
  note t3 = Authenticate_unusable_cookie [where ?Sum512.0 = "take 3" and rnd = ?rnd and ab = ?ab
      and w = ?w and cookie = "''dTQy''" and raw = "''u42''"
      and req = "\<lparr>Context = Map.empty, cookieState = [CookieRemember \<mapsto> ''dTQy''],
          sessionState = Map.empty\<rparr>",
      THEN conjunct2, THEN conjunct2, THEN conjunct1]
  note t4 = Authenticate_unusable_cookie [where ?Sum512.0 = "take 3" and rnd = ?rnd and ab = ?ab
      and w = ?w4 and cookie = ?tok and raw = ?raw
      and s = "\<lparr>tokens = [(''u42'', ''AAAA'')], users = []\<rparr>"
      and req = "\<lparr>Context = Map.empty, cookieState = [CookieRemember \<mapsto> ?tok],
          sessionState = Map.empty\<rparr>",
      THEN conjunct2, THEN conjunct2, THEN conjunct2, unfolded p4 h4]
  have c1: "cookieState \<lparr>Context = Map.empty, cookieState = Map.empty,
      sessionState = Map.empty\<rparr> CookieRemember = None" by simp
  have m3: "CHR '';'' \<notin> set ''u42''" by simp
  have m4: "CHR '';'' \<in> set ?raw" by simp
  from t1 have r1: "Authenticate (take 3) ?rnd ?ab
      \<lparr>Context = Map.empty, cookieState = Map.empty, sessionState = Map.empty\<rparr> ?w = (None, ?w)"
    by simp
  from t2 d2 have r2: "Authenticate (take 3) ?rnd ?ab
      \<lparr>Context = Map.empty, cookieState = [CookieRemember \<mapsto> ''not base64!''],
        sessionState = Map.empty\<rparr> ?w =
      (None, \<lparr>storage = \<lparr>tokens = [(''u42'', ''dTQy'')], users = []\<rparr>,
               trace = [EvDelCookie CookieRemember,
                        EvInfof ''failed to decode remember me cookie, deleting cookie'']\<rparr>)"
    by simp
  from t3 d3 have r3: "Authenticate (take 3) ?rnd ?ab
      \<lparr>Context = Map.empty, cookieState = [CookieRemember \<mapsto> ''dTQy''],
        sessionState = Map.empty\<rparr> ?w =
      (None, \<lparr>storage = \<lparr>tokens = [(''u42'', ''dTQy'')], users = []\<rparr>,
               trace = [EvDelCookie CookieRemember,
                        EvInfof ''failed to decode remember me token, deleting cookie'']\<rparr>)"
    by simp
  from t4 d4 u4 have r4: "Authenticate (take 3) ?rnd ?ab
      \<lparr>Context = Map.empty, cookieState = [CookieRemember \<mapsto> ?tok],
        sessionState = Map.empty\<rparr> ?w4 =
      (None, \<lparr>storage = \<lparr>tokens = [(''u42'', ''AAAA'')], users = []\<rparr>,
               trace = [EvUseRememberToken ''u42'' ''dTQy'',
                        EvInfof ''remember me cookie had a token that was not in storage, deleting cookie'',
                        EvDelCookie CookieRemember]\<rparr>)"
    by simp
  have u4': "UseRememberToken (Server ?ab) ''u42'' ''dTQy''
        \<lparr>tokens = [(''u42'', ''AAAA'')], users = []\<rparr> =
      (Some ErrTokenNotFound, \<lparr>tokens = [(''u42'', ''AAAA'')], users = []\<rparr>)"
    using u4 by simp
  show ?thesis
    by (intro conjI) (fact c1 d2 d3 d4 m3 m4 u4' r1 r2 r3 r4)+
qed



section \<open>Infrastructure failures\<close>

text \<open>
  Claim C4. When \<^verbatim>\<open>UseRememberToken\<close> fails with an error other than token-not-found,
  \<^const>\<open>Authenticate\<close> returns that error; when the random source fails or
  \<^verbatim>\<open>AddRememberToken\<close> fails, it returns that error under the message \<^verbatim>\<open>errors.Wrap\<close> adds
  (the cause is unchanged). In all three cases the events are the collaborator calls and the
  read of the random source only: no session entry is written, no cookie is set or deleted.
\<close>

theorem Authenticate_infrastructure_failure:
  assumes "cookieState req CookieRemember = Some cookie"
    and "DecodeString URLEncoding cookie = Some raw"
    and "CHR '';'' \<in> set raw"
    and "pid = takeWhile (\<lambda>c. c \<noteq> CHR '';'') raw"
    and "hash = EncodeToString StdEncoding (Sum512 raw)"
  shows "(UseRememberToken (Server ab) pid hash (storage w) = (Some e, s1) \<and>
          e \<noteq> ErrTokenNotFound \<longrightarrow>
          Authenticate Sum512 rnd ab req w =
            (Some e, w\<lparr>storage := s1, trace := trace w @ [EvUseRememberToken pid hash]\<rparr>))
       \<and> (UseRememberToken (Server ab) pid hash (storage w) = (None, s1) \<and> rnd = Inl e \<longrightarrow>
          Authenticate Sum512 rnd ab req w =
            (Some (Wrap e ''failed to create remember me nonce''),
             w\<lparr>storage := s1,
               trace := trace w @ [EvUseRememberToken pid hash, EvRandRead nNonceSize]\<rparr>)
          \<and> Cause (Wrap e ''failed to create remember me nonce'') = Cause e)
       \<and> (UseRememberToken (Server ab) pid hash (storage w) = (None, s1) \<and>
          rnd = Inr nonce \<and> length nonce = nNonceSize \<and>
          newhash = EncodeToString StdEncoding (Sum512 (pid @ CHR '';'' # nonce)) \<and>
          AddRememberToken (Server ab) pid newhash s1 = (Some e, s2) \<longrightarrow>
          Authenticate Sum512 rnd ab req w =
            (Some (Wrap e ''failed to save me token''),
             w\<lparr>storage := s2,
               trace := trace w @ [EvUseRememberToken pid hash, EvRandRead nNonceSize,
                                   EvAddRememberToken pid newhash]\<rparr>)
          \<and> Cause (Wrap e ''failed to save me token'') = Cause e)"
proof -
  let ?use = "EvUseRememberToken pid hash" and ?rand = "EvRandRead nNonceSize"
  have parsed: "Authenticate Sum512 rnd ab req w =
     (case callUseRememberToken (Server ab) pid hash w of
        (Some err, w1) \<Rightarrow>
          if err = ErrTokenNotFound then
            (None, DelCookie CookieRemember
               (Infof ''remember me cookie had a token that was not in storage, deleting cookie'' w1))
          else (Some err, w1)
      | (None, w1) \<Rightarrow>
          (case GenerateToken Sum512 rnd pid w1 of
             (Inl err, w2) \<Rightarrow> (Some err, w2)
           | (Inr (hash, token), w2) \<Rightarrow>
               (case callAddRememberToken (Server ab) pid hash w2 of
                  (Some err, w3) \<Rightarrow> (Some (Wrap err ''failed to save me token''), w3)
                | (None, w3) \<Rightarrow>
                    (None, PutCookie CookieRemember token
                       (DelCookie CookieRemember
                          (PutSession SessionHalfAuthKey ''true''
                             (PutSession SessionKey pid w3)))))))"
    unfolding assms(4,5) by (rule Authenticate_parsed [OF assms(1-3)])
  have other: "Authenticate Sum512 rnd ab req w = (Some e, w\<lparr>storage := s1, trace := trace w @ [?use]\<rparr>)"
    if u: "UseRememberToken (Server ab) pid hash (storage w) = (Some e, s1)"
      and ne: "e \<noteq> ErrTokenNotFound" for e s1
    using ne by (simp add: parsed callUseRememberToken_eq [OF u])
  have gen: "Authenticate Sum512 rnd ab req w =
        (Some (Wrap e ''failed to create remember me nonce''),
         w\<lparr>storage := s1, trace := trace w @ [?use, ?rand]\<rparr>)"
    if u: "UseRememberToken (Server ab) pid hash (storage w) = (None, s1)"
      and r: "rnd = Inl e" for e s1
    unfolding parsed callUseRememberToken_eq [OF u]
    by (simp add: r GenerateToken_Inl emit_def)
  have add: "Authenticate Sum512 rnd ab req w =
        (Some (Wrap e ''failed to save me token''),
         w\<lparr>storage := s2, trace := trace w @ [?use, ?rand, EvAddRememberToken pid newhash]\<rparr>)"
    if u: "UseRememberToken (Server ab) pid hash (storage w) = (None, s1)"
      and r: "rnd = Inr nonce" and n: "length nonce = nNonceSize"
      and h: "newhash = EncodeToString StdEncoding (Sum512 (pid @ CHR '';'' # nonce))"
      and ad: "AddRememberToken (Server ab) pid newhash s1 = (Some e, s2)" for e s1 s2
  proof -
    let ?w2 = "w\<lparr>storage := s1, trace := trace w @ [?use, ?rand]\<rparr>"
    have ad': "AddRememberToken (Server ab) pid newhash (storage ?w2) = (Some e, s2)"
      using ad by simp
    show ?thesis
      using callAddRememberToken_eq [OF ad']
      unfolding parsed callUseRememberToken_eq [OF u]
      by (simp add: r GenerateToken_Inr [OF n] emit_def h [symmetric])
  qed
  show ?thesis
  proof (intro conjI impI; (elim conjE)?)
    show "Cause (Wrap e ''failed to create remember me nonce'') = Cause e" by simp
    show "Cause (Wrap e ''failed to save me token'') = Cause e" by simp
  qed (rule other gen add; assumption)+
qed


theorem Authenticate_infrastructure_failure_witness:
  "cookieState \<lparr>Context = Map.empty,
       cookieState = [CookieRemember \<mapsto> ''dTQyOwAAAAAAAAAAAAAAAAAAAAAAAAAAAAAAAAAAAAAAAAAA''],
       sessionState = Map.empty\<rparr> CookieRemember =
     Some ''dTQyOwAAAAAAAAAAAAAAAAAAAAAAAAAAAAAAAAAAAAAAAAAA''
   \<and> DecodeString URLEncoding ''dTQyOwAAAAAAAAAAAAAAAAAAAAAAAAAAAAAAAAAAAAAAAAAA'' =
        Some (''u42;'' @ replicate 32 (CHR 0x00))
   \<and> CHR '';'' \<in> set (''u42;'' @ replicate 32 (CHR 0x00))
   \<and> ''u42'' = takeWhile (\<lambda>c. c \<noteq> CHR '';'') (''u42;'' @ replicate 32 (CHR 0x00))
   \<and> ''AAAA'' = EncodeToString StdEncoding (take 3 (rev (''u42;'' @ replicate 32 (CHR 0x00))))
   \<and> Err ''db down'' \<noteq> ErrTokenNotFound
   \<and> Authenticate (\<lambda>bs. take 3 (rev bs)) (Inr (replicate 32 (CHR ''a'')))
        \<lparr>Server = memStorer\<lparr>UseRememberToken := \<lambda>pid hash s. (Some (Err ''db down''), s)\<rparr>\<rparr>
        \<lparr>Context = Map.empty,
          cookieState = [CookieRemember \<mapsto> ''dTQyOwAAAAAAAAAAAAAAAAAAAAAAAAAAAAAAAAAAAAAAAAAA''],
          sessionState = Map.empty\<rparr>
        \<lparr>storage = \<lparr>tokens = [(''u42'', ''AAAA'')], users = []\<rparr>, trace = []\<rparr> =
      (Some (Err ''db down''),
       \<lparr>storage = \<lparr>tokens = [(''u42'', ''AAAA'')], users = []\<rparr>,
         trace = [EvUseRememberToken ''u42'' ''AAAA'']\<rparr>)
   \<and> Authenticate (\<lambda>bs. take 3 (rev bs)) (Inl (Err ''no entropy''))
        \<lparr>Server = memStorer\<rparr>
        \<lparr>Context = Map.empty,
          cookieState = [CookieRemember \<mapsto> ''dTQyOwAAAAAAAAAAAAAAAAAAAAAAAAAAAAAAAAAAAAAAAAAA''],
          sessionState = Map.empty\<rparr>
        \<lparr>storage = \<lparr>tokens = [(''u42'', ''AAAA'')], users = []\<rparr>, trace = []\<rparr> =
      (Some (Wrap (Err ''no entropy'') ''failed to create remember me nonce''),
       \<lparr>storage = \<lparr>tokens = [], users = []\<rparr>,
         trace = [EvUseRememberToken ''u42'' ''AAAA'', EvRandRead 32]\<rparr>)
   \<and> length (replicate 32 (CHR ''a'')) = nNonceSize
   \<and> ''YWFh'' = EncodeToString StdEncoding
         (take 3 (rev (''u42'' @ CHR '';'' # replicate 32 (CHR ''a''))))
   \<and> Authenticate (\<lambda>bs. take 3 (rev bs)) (Inr (replicate 32 (CHR ''a'')))
        \<lparr>Server = memStorer\<lparr>AddRememberToken := \<lambda>pid hash s. (Some (Err ''disk full''), s)\<rparr>\<rparr>
        \<lparr>Context = Map.empty,
          cookieState = [CookieRemember \<mapsto> ''dTQyOwAAAAAAAAAAAAAAAAAAAAAAAAAAAAAAAAAAAAAAAAAA''],
          sessionState = Map.empty\<rparr>
        \<lparr>storage = \<lparr>tokens = [(''u42'', ''AAAA'')], users = []\<rparr>, trace = []\<rparr> =
      (Some (Wrap (Err ''disk full'') ''failed to save me token''),
       \<lparr>storage = \<lparr>tokens = [], users = []\<rparr>,
         trace = [EvUseRememberToken ''u42'' ''AAAA'', EvRandRead 32,
                  EvAddRememberToken ''u42'' ''YWFh'']\<rparr>)"
proof -
  let ?tok = "''dTQyOwAAAAAAAAAAAAAAAAAAAAAAAAAAAAAAAAAAAAAAAAAA''"
  let ?raw = "''u42;'' @ replicate 32 (CHR 0x00)"
  let ?nonce = "replicate 32 (CHR ''a'')"
  let ?sum = "\<lambda>bs :: string. take 3 (rev bs)"
  let ?req = "\<lparr>Context = Map.empty, cookieState = [CookieRemember \<mapsto> ?tok],
      sessionState = Map.empty\<rparr>"
  let ?w = "\<lparr>storage = \<lparr>tokens = [(''u42'', ''AAAA'')], users = []\<rparr>, trace = []\<rparr>"
  let ?s1 = "\<lparr>tokens = [], users = []\<rparr>"
  let ?ab1 = "\<lparr>Server = memStorer\<lparr>UseRememberToken := \<lambda>pid hash s. (Some (Err ''db down''), s)\<rparr>\<rparr>"
  let ?ab2 = "\<lparr>Server = memStorer\<rparr>"
  let ?ab3 = "\<lparr>Server = memStorer\<lparr>AddRememberToken := \<lambda>pid hash s. (Some (Err ''disk full''), s)\<rparr>\<rparr>"
  have c: "cookieState ?req CookieRemember = Some ?tok" by simp
  have d: "DecodeString URLEncoding ?tok = Some ?raw" by code_simp
  have m: "CHR '';'' \<in> set ?raw" by simp
  have p: "''u42'' = takeWhile (\<lambda>c. c \<noteq> CHR '';'') ?raw" by simp
  have h: "''AAAA'' = EncodeToString StdEncoding (?sum ?raw)" by code_simp
  have len: "length ?nonce = nNonceSize" by (simp add: nNonceSize_def)
  have nh: "''YWFh'' = EncodeToString StdEncoding (?sum (''u42'' @ CHR '';'' # ?nonce))"
    by code_simp
  have u1: "UseRememberToken (Server ?ab1) ''u42'' ''AAAA'' (storage ?w) =
      (Some (Err ''db down''), storage ?w)"
    by (simp add: memStorer_def)
  have u2: "UseRememberToken (Server ?ab2) ''u42'' ''AAAA'' (storage ?w) = (None, ?s1)"
    by (simp add: memStorer_def)
  have u3: "UseRememberToken (Server ?ab3) ''u42'' ''AAAA'' (storage ?w) = (None, ?s1)"
    by (simp add: memStorer_def)
  have a3: "AddRememberToken (Server ?ab3) ''u42'' ''YWFh'' ?s1 = (Some (Err ''disk full''), ?s1)"
    by (simp add: memStorer_def)
  note t1 = Authenticate_infrastructure_failure [where ?Sum512.0 = ?sum, OF c d m p h, where ab = ?ab1
      and w = ?w and rnd = "Inr ?nonce" and e = "Err ''db down''" and ?s1.0 = "storage ?w",
      THEN conjunct1]
  note t2 = Authenticate_infrastructure_failure [where ?Sum512.0 = ?sum, OF c d m p h, where ab = ?ab2
      and w = ?w and rnd = "Inl (Err ''no entropy'')" and e = "Err ''no entropy''" and ?s1.0 = ?s1,
      THEN conjunct2, THEN conjunct1]
  note t3 = Authenticate_infrastructure_failure [where ?Sum512.0 = ?sum, OF c d m p h, where ab = ?ab3
      and w = ?w and rnd = "Inr ?nonce" and nonce = ?nonce and newhash = "''YWFh''"
      and e = "Err ''disk full''" and ?s1.0 = ?s1 and ?s2.0 = ?s1,
      THEN conjunct2, THEN conjunct2]
  have ne: "Err ''db down'' \<noteq> ErrTokenNotFound" by simp
  from u1 ne have ante1: "UseRememberToken (Server ?ab1) ''u42'' ''AAAA'' (storage ?w) =
      (Some (Err ''db down''), storage ?w) \<and> Err ''db down'' \<noteq> ErrTokenNotFound"
    by (rule conjI)
  have ante2: "UseRememberToken (Server ?ab2) ''u42'' ''AAAA'' (storage ?w) = (None, ?s1) \<and>
      (Inl (Err ''no entropy'') :: error + string) = Inl (Err ''no entropy'')"
    using u2 by (intro conjI refl)
  have ante3: "UseRememberToken (Server ?ab3) ''u42'' ''AAAA'' (storage ?w) = (None, ?s1) \<and>
      (Inr ?nonce :: error + string) = Inr ?nonce \<and> length ?nonce = nNonceSize \<and>
      ''YWFh'' = EncodeToString StdEncoding (?sum (''u42'' @ CHR '';'' # ?nonce)) \<and>
      AddRememberToken (Server ?ab3) ''u42'' ''YWFh'' ?s1 = (Some (Err ''disk full''), ?s1)"
    using u3 len nh a3 by (intro conjI refl)
  from t1 [THEN mp, OF ante1] have r1: "Authenticate ?sum (Inr ?nonce) ?ab1 ?req ?w =
      (Some (Err ''db down''),
       \<lparr>storage = \<lparr>tokens = [(''u42'', ''AAAA'')], users = []\<rparr>,
         trace = [EvUseRememberToken ''u42'' ''AAAA'']\<rparr>)"
    by simp
  from t2 [THEN mp, OF ante2] have r2: "Authenticate ?sum (Inl (Err ''no entropy'')) ?ab2 ?req ?w =
      (Some (Wrap (Err ''no entropy'') ''failed to create remember me nonce''),
       \<lparr>storage = ?s1, trace = [EvUseRememberToken ''u42'' ''AAAA'', EvRandRead 32]\<rparr>)"
    by (simp add: nNonceSize_def)
  from t3 [THEN mp, OF ante3] have r3: "Authenticate ?sum (Inr ?nonce) ?ab3 ?req ?w =
      (Some (Wrap (Err ''disk full'') ''failed to save me token''),
       \<lparr>storage = ?s1, trace = [EvUseRememberToken ''u42'' ''AAAA'', EvRandRead 32,
          EvAddRememberToken ''u42'' ''YWFh'']\<rparr>)"
    by (simp add: nNonceSize_def)
  show ?thesis
    by (intro conjI) (fact c d m p h ne len nh r1 r2 r3)+
qed

section \<open>The middleware\<close>

text \<open>
  Claim C5. \<^const>\<open>Middleware\<close> runs \<^const>\<open>Authenticate\<close> exactly when the context of the
  request holds neither a pid nor a user; an error of \<^const>\<open>Authenticate\<close> is logged and
  nothing more. In every case the wrapped handler is then called, with the same request and
  the world as it stands: untouched when \<^const>\<open>Authenticate\<close> was skipped.
\<close>

theorem Middleware_gate:
  "(Context r CTXKeyPID = None \<and> Context r CTXKeyUser = None \<longrightarrow>
      Middleware Sum512 rnd ab next r w =
        next r (case Authenticate Sum512 rnd ab r w of
                  (None, w1) \<Rightarrow> w1
                | (Some err, w1) \<Rightarrow>
                    w1\<lparr>trace := trace w1 @
                      [EvErrorf ''failed to authenticate user via remember me: %+v'' err]\<rparr>))
   \<and> (Context r CTXKeyPID \<noteq> None \<or> Context r CTXKeyUser \<noteq> None \<longrightarrow>
      Middleware Sum512 rnd ab next r w = next r w)"
  by (auto simp: Middleware_def Errorf_def emit_def split: prod.splits option.splits)

theorem Middleware_gate_witness:
  "Context \<lparr>Context = Map.empty,
       cookieState = [CookieRemember \<mapsto> ''dTQyOwAAAAAAAAAAAAAAAAAAAAAAAAAAAAAAAAAAAAAAAAAA''],
       sessionState = Map.empty\<rparr> CTXKeyPID = None
   \<and> Context \<lparr>Context = Map.empty,
       cookieState = [CookieRemember \<mapsto> ''dTQyOwAAAAAAAAAAAAAAAAAAAAAAAAAAAAAAAAAAAAAAAAAA''],
       sessionState = Map.empty\<rparr> CTXKeyUser = None
   \<and> Middleware (\<lambda>bs. take 3 (rev bs)) (Inr (replicate 32 (CHR ''a'')))
        \<lparr>Server = memStorer\<lparr>UseRememberToken := \<lambda>pid hash s. (Some (Err ''db down''), s)\<rparr>\<rparr>
        (\<lambda>r w. (cookieState r CookieRemember, w))
        \<lparr>Context = Map.empty,
          cookieState = [CookieRemember \<mapsto> ''dTQyOwAAAAAAAAAAAAAAAAAAAAAAAAAAAAAAAAAAAAAAAAAA''],
          sessionState = Map.empty\<rparr>
        \<lparr>storage = \<lparr>tokens = [(''u42'', ''AAAA'')], users = []\<rparr>, trace = []\<rparr> =
      (Some ''dTQyOwAAAAAAAAAAAAAAAAAAAAAAAAAAAAAAAAAAAAAAAAAA'',
       \<lparr>storage = \<lparr>tokens = [(''u42'', ''AAAA'')], users = []\<rparr>,
         trace = [EvUseRememberToken ''u42'' ''AAAA'',
                  EvErrorf ''failed to authenticate user via remember me: %+v'' (Err ''db down'')]\<rparr>)
   \<and> Context \<lparr>Context = [CTXKeyPID \<mapsto> AString ''u42''],
       cookieState = [CookieRemember \<mapsto> ''dTQyOwAAAAAAAAAAAAAAAAAAAAAAAAAAAAAAAAAAAAAAAAAA''],
       sessionState = Map.empty\<rparr> CTXKeyPID \<noteq> None
   \<and> Middleware (\<lambda>bs. take 3 (rev bs)) (Inr (replicate 32 (CHR ''a'')))
        \<lparr>Server = memStorer\<rparr>
        (\<lambda>r w. (cookieState r CookieRemember, w))
        \<lparr>Context = [CTXKeyPID \<mapsto> AString ''u42''],
          cookieState = [CookieRemember \<mapsto> ''dTQyOwAAAAAAAAAAAAAAAAAAAAAAAAAAAAAAAAAAAAAAAAAA''],
          sessionState = Map.empty\<rparr>
        \<lparr>storage = \<lparr>tokens = [(''u42'', ''AAAA'')], users = []\<rparr>, trace = []\<rparr> =
      (Some ''dTQyOwAAAAAAAAAAAAAAAAAAAAAAAAAAAAAAAAAAAAAAAAAA'',
       \<lparr>storage = \<lparr>tokens = [(''u42'', ''AAAA'')], users = []\<rparr>, trace = []\<rparr>)"
proof -
  let ?tok = "''dTQyOwAAAAAAAAAAAAAAAAAAAAAAAAAAAAAAAAAAAAAAAAAA''"
  let ?sum = "\<lambda>bs :: string. take 3 (rev bs)"
  let ?rnd = "Inr (replicate 32 (CHR ''a'')) :: error + string"
  let ?handler = "\<lambda>(r :: request) (w :: memState world). (cookieState r CookieRemember, w)"
  let ?reqa = "\<lparr>Context = Map.empty, cookieState = [CookieRemember \<mapsto> ?tok],
      sessionState = Map.empty\<rparr>"
  let ?reqb = "\<lparr>Context = [CTXKeyPID \<mapsto> AString ''u42''],
      cookieState = [CookieRemember \<mapsto> ?tok], sessionState = Map.empty\<rparr>"
  let ?w = "\<lparr>storage = \<lparr>tokens = [(''u42'', ''AAAA'')], users = []\<rparr>, trace = []\<rparr>"
  let ?ab1 = "\<lparr>Server = memStorer\<lparr>UseRememberToken := \<lambda>pid hash s. (Some (Err ''db down''), s)\<rparr>\<rparr>"
  have a1: "Context ?reqa CTXKeyPID = None" and a2: "Context ?reqa CTXKeyUser = None"
    and b1: "Context ?reqb CTXKeyPID \<noteq> None" by simp_all
  have au: "Authenticate ?sum ?rnd ?ab1 ?reqa ?w =
      (Some (Err ''db down''),
       \<lparr>storage = \<lparr>tokens = [(''u42'', ''AAAA'')], users = []\<rparr>,
         trace = [EvUseRememberToken ''u42'' ''AAAA'']\<rparr>)"
    by code_simp
  from Middleware_gate [where r = ?reqa and ?Sum512.0 = ?sum and rnd = ?rnd and ab = ?ab1
      and w = ?w and ?next = ?handler, THEN conjunct1, THEN mp, OF conjI [OF a1 a2]]
  have ra: "Middleware ?sum ?rnd ?ab1 ?handler ?reqa ?w =
      (Some ?tok,
       \<lparr>storage = \<lparr>tokens = [(''u42'', ''AAAA'')], users = []\<rparr>,
         trace = [EvUseRememberToken ''u42'' ''AAAA'',
                  EvErrorf ''failed to authenticate user via remember me: %+v'' (Err ''db down'')]\<rparr>)"
    unfolding au by simp
  from Middleware_gate [where r = ?reqb and ?Sum512.0 = ?sum and rnd = ?rnd
      and ab = "\<lparr>Server = memStorer\<rparr>"
      and w = ?w and ?next = ?handler, THEN conjunct2, THEN mp, OF disjI1 [OF b1]]
  have rb: "Middleware ?sum ?rnd \<lparr>Server = memStorer\<rparr> ?handler ?reqb ?w = (Some ?tok, ?w)"
    by simp
  show ?thesis
    by (intro conjI) (fact a1 a2 b1 ra rb)+
qed




section \<open>The hook after authentication\<close>

lemma CurrentUserID_Context_RM:
  "CurrentUserID (req\<lparr>Context := (Context req)(CTXKeyRM \<mapsto> v)\<rparr>) = CurrentUserID req"
proof -
  have "GetSession (req\<lparr>Context := (Context req)(CTXKeyRM \<mapsto> v)\<rparr>) SessionKey =
      GetSession req SessionKey"
    by (simp add: GetSession_def)
  then show ?thesis
    by (simp add: CurrentUserID_def split: option.splits)
qed

lemma CurrentUser_Context_RM:
  "CurrentUser r (req\<lparr>Context := (Context req)(CTXKeyRM \<mapsto> v)\<rparr>) w = CurrentUser r req w"
  by (auto simp: CurrentUser_def CurrentUserID_Context_RM split: option.splits)

lemma CurrentUserP_Context_RM:
  "CurrentUserP r (req\<lparr>Context := (Context req)(CTXKeyRM \<mapsto> v)\<rparr>) w = CurrentUserP r req w"
  by (simp add: CurrentUserP_def CurrentUser_Context_RM)

lemma RememberAfterAuth_opted_in:
  assumes "Context req CTXKeyRM = Some v" and "v \<noteq> ABool False"
  shows "RememberAfterAuth Sum512 rnd r req handled w =
     (case CurrentUserP r req w of
        (Inl p, w1) \<Rightarrow> (Inl p, w1)
      | (Inr user, w1) \<Rightarrow>
          (case GenerateToken Sum512 rnd (GetPID user) w1 of
             (Inl err, w2) \<Rightarrow> (Inr (False, Some err), w2)
           | (Inr (hash, token), w2) \<Rightarrow>
               (case callAddRememberToken (Server r) (GetPID user) hash w2 of
                  (Some err, w3) \<Rightarrow> (Inr (False, Some err), w3)
                | (None, w3) \<Rightarrow> (Inr (False, None), PutCookie CookieRemember token w3))))"
  using assms
  by (cases v)
    (auto simp: RememberAfterAuth_def assertBool_def EnsureCanRemember_def Let_def
      split: prod.splits option.splits sum.splits)

text \<open>
  Claim C8. When the value under the remember-me context key is absent or is the boolean
  false, \<^const>\<open>RememberAfterAuth\<close> returns \<open>(false, nil)\<close> and leaves the world as it is: no
  read of the random source, no call of the collaborator, no cookie. On every path the
  handled flag it returns is false; the only way not to return is the panic of
  \<^const>\<open>CurrentUserP\<close>.
\<close>

theorem RememberAfterAuth_handled_false:
  "((Context req CTXKeyRM = None \<or> Context req CTXKeyRM = Some (ABool False)) \<longrightarrow>
      RememberAfterAuth Sum512 rnd r req handled w = (Inr (False, None), w))
   \<and> (case fst (RememberAfterAuth Sum512 rnd r req handled w) of
        Inl p \<Rightarrow> fst (CurrentUserP r req w) = Inl p
      | Inr (h, e) \<Rightarrow> h = False)"
proof (intro conjI impI)
  assume "Context req CTXKeyRM = None \<or> Context req CTXKeyRM = Some (ABool False)"
  then show "RememberAfterAuth Sum512 rnd r req handled w = (Inr (False, None), w)"
    by (auto simp: RememberAfterAuth_def assertBool_def)
next
  show "case fst (RememberAfterAuth Sum512 rnd r req handled w) of
        Inl p \<Rightarrow> fst (CurrentUserP r req w) = Inl p
      | Inr (h, e) \<Rightarrow> h = False"
  proof (cases "Context req CTXKeyRM")
    case None
    then show ?thesis by (simp add: RememberAfterAuth_def)
  next
    case (Some v)
    show ?thesis
    proof (cases "v = ABool False")
      case True
      with Some show ?thesis by (simp add: RememberAfterAuth_def assertBool_def)
    next
      case False
      show ?thesis
        unfolding RememberAfterAuth_opted_in [OF Some False]
        by (auto split: prod.splits sum.splits option.splits)
    qed
  qed
qed

theorem RememberAfterAuth_handled_false_witness:
  "Context \<lparr>Context = Map.empty, cookieState = Map.empty,
       sessionState = [SessionKey \<mapsto> ''u42'']\<rparr> CTXKeyRM = None
   \<and> RememberAfterAuth (\<lambda>bs. take 3 (rev bs)) (Inr (replicate 32 (CHR ''a'')))
        \<lparr>Server = memStorer\<rparr>
        \<lparr>Context = Map.empty, cookieState = Map.empty,
          sessionState = [SessionKey \<mapsto> ''u42'']\<rparr> True
        \<lparr>storage = \<lparr>tokens = [], users = [(''u42'', User ''u42'' ''alice'')]\<rparr>, trace = []\<rparr> =
      (Inr (False, None),
       \<lparr>storage = \<lparr>tokens = [], users = [(''u42'', User ''u42'' ''alice'')]\<rparr>, trace = []\<rparr>)
   \<and> Context \<lparr>Context = [CTXKeyRM \<mapsto> ABool False], cookieState = Map.empty,
       sessionState = [SessionKey \<mapsto> ''u42'']\<rparr> CTXKeyRM = Some (ABool False)
   \<and> RememberAfterAuth (\<lambda>bs. take 3 (rev bs)) (Inr (replicate 32 (CHR ''a'')))
        \<lparr>Server = memStorer\<rparr>
        \<lparr>Context = [CTXKeyRM \<mapsto> ABool False], cookieState = Map.empty,
          sessionState = [SessionKey \<mapsto> ''u42'']\<rparr> True
        \<lparr>storage = \<lparr>tokens = [], users = [(''u42'', User ''u42'' ''alice'')]\<rparr>, trace = []\<rparr> =
      (Inr (False, None),
       \<lparr>storage = \<lparr>tokens = [], users = [(''u42'', User ''u42'' ''alice'')]\<rparr>, trace = []\<rparr>)
   \<and> fst (RememberAfterAuth (\<lambda>bs. take 3 (rev bs)) (Inr (replicate 32 (CHR ''a'')))
        \<lparr>Server = memStorer\<rparr>
        \<lparr>Context = [CTXKeyRM \<mapsto> ABool True], cookieState = Map.empty,
          sessionState = [SessionKey \<mapsto> ''u42'']\<rparr> True
        \<lparr>storage = \<lparr>tokens = [], users = [(''u42'', User ''u42'' ''alice'')]\<rparr>, trace = []\<rparr>) =
      Inr (False, None)"
proof -
  let ?sum = "\<lambda>bs :: string. take 3 (rev bs)"
  let ?rnd = "Inr (replicate 32 (CHR ''a'')) :: error + string"
  let ?ab = "\<lparr>Server = memStorer\<rparr>"
  let ?w = "\<lparr>storage = \<lparr>tokens = [], users = [(''u42'', User ''u42'' ''alice'')]\<rparr>, trace = []\<rparr>"
  let ?reqN = "\<lparr>Context = Map.empty, cookieState = Map.empty,
      sessionState = [SessionKey \<mapsto> ''u42'']\<rparr>"
  let ?reqF = "\<lparr>Context = [CTXKeyRM \<mapsto> ABool False], cookieState = Map.empty,
      sessionState = [SessionKey \<mapsto> ''u42'']\<rparr>"
  let ?reqT = "\<lparr>Context = [CTXKeyRM \<mapsto> ABool True], cookieState = Map.empty,
      sessionState = [SessionKey \<mapsto> ''u42'']\<rparr>"
  have n: "Context ?reqN CTXKeyRM = None" by simp
  have f: "Context ?reqF CTXKeyRM = Some (ABool False)" by simp
  note rn = RememberAfterAuth_handled_false [where req = ?reqN and ?Sum512.0 = ?sum
      and rnd = ?rnd and r = ?ab and handled = True and w = ?w,
      THEN conjunct1, THEN mp, OF disjI1 [OF n]]
  note rf = RememberAfterAuth_handled_false [where req = ?reqF and ?Sum512.0 = ?sum
      and rnd = ?rnd and r = ?ab and handled = True and w = ?w,
      THEN conjunct1, THEN mp, OF disjI2 [OF f]]
  have ev: "fst (RememberAfterAuth ?sum ?rnd ?ab ?reqT True ?w) = Inr (False, None)"
    by code_simp
  show ?thesis
    by (intro conjI) (fact n f rn rf ev)+
qed



text \<open>
  Claim C10. A value under the remember-me context key that is neither nil nor the boolean
  false opts in, whatever its type: the hook does what it does for the boolean true. On that
  path, with the user resolved, a nonce read and \<^verbatim>\<open>AddRememberToken\<close> succeeding, a token
  is generated, its hash stored and the cookie written. The string \<open>false\<close> is such a value.
\<close>

theorem RememberAfterAuth_opt_in:
  assumes "Context req CTXKeyRM = Some v" and "v \<noteq> ABool False"
  shows "RememberAfterAuth Sum512 rnd r req handled w =
           RememberAfterAuth Sum512 rnd r
             (req\<lparr>Context := (Context req)(CTXKeyRM \<mapsto> ABool True)\<rparr>) handled w
       \<and> (CurrentUserP r req w = (Inr u, w1) \<and> rnd = Inr nonce \<and> length nonce = nNonceSize \<and>
          hash = EncodeToString StdEncoding (Sum512 (GetPID u @ CHR '';'' # nonce)) \<and>
          token = EncodeToString URLEncoding (GetPID u @ CHR '';'' # nonce) \<and>
          AddRememberToken (Server r) (GetPID u) hash (storage w1) = (None, s2) \<longrightarrow>
          RememberAfterAuth Sum512 rnd r req handled w =
            (Inr (False, None),
             w1\<lparr>storage := s2,
                trace := trace w1 @ [EvRandRead nNonceSize, EvAddRememberToken (GetPID u) hash,
                                     EvPutCookie CookieRemember token]\<rparr>))"
proof (intro conjI impI)
  let ?req' = "req\<lparr>Context := (Context req)(CTXKeyRM \<mapsto> ABool True)\<rparr>"
  have t: "Context ?req' CTXKeyRM = Some (ABool True)" "ABool True \<noteq> ABool False" by simp_all
  show "RememberAfterAuth Sum512 rnd r req handled w = RememberAfterAuth Sum512 rnd r ?req' handled w"
    unfolding RememberAfterAuth_opted_in [OF assms] RememberAfterAuth_opted_in [OF t]
      CurrentUserP_Context_RM ..
next
  assume a: "CurrentUserP r req w = (Inr u, w1) \<and> rnd = Inr nonce \<and> length nonce = nNonceSize \<and>
          hash = EncodeToString StdEncoding (Sum512 (GetPID u @ CHR '';'' # nonce)) \<and>
          token = EncodeToString URLEncoding (GetPID u @ CHR '';'' # nonce) \<and>
          AddRememberToken (Server r) (GetPID u) hash (storage w1) = (None, s2)"
  then have cu: "CurrentUserP r req w = (Inr u, w1)" and rn: "rnd = Inr nonce"
    and n: "length nonce = nNonceSize"
    and h: "hash = EncodeToString StdEncoding (Sum512 (GetPID u @ CHR '';'' # nonce))"
    and tk: "token = EncodeToString URLEncoding (GetPID u @ CHR '';'' # nonce)"
    and ad: "AddRememberToken (Server r) (GetPID u) hash (storage w1) = (None, s2)"
    by blast+
  let ?w2 = "emit (EvRandRead nNonceSize) w1"
  have ad': "AddRememberToken (Server r) (GetPID u) hash (storage ?w2) = (None, s2)"
    using ad by (simp add: emit_def)
  show "RememberAfterAuth Sum512 rnd r req handled w =
            (Inr (False, None),
             w1\<lparr>storage := s2,
                trace := trace w1 @ [EvRandRead nNonceSize, EvAddRememberToken (GetPID u) hash,
                                     EvPutCookie CookieRemember token]\<rparr>)"
    unfolding RememberAfterAuth_opted_in [OF assms] cu rn
    using callAddRememberToken_eq [OF ad']
    by (simp add: GenerateToken_Inr [OF n] h [symmetric] tk [symmetric] PutCookie_def emit_def)
qed

theorem RememberAfterAuth_opt_in_witness:
  "Context \<lparr>Context = [CTXKeyRM \<mapsto> AString ''false''], cookieState = Map.empty,
       sessionState = [SessionKey \<mapsto> ''u42'']\<rparr> CTXKeyRM = Some (AString ''false'')
   \<and> AString ''false'' \<noteq> ABool False
   \<and> RememberAfterAuth (\<lambda>bs. take 3 (rev bs)) (Inr (replicate 32 (CHR ''a'')))
        \<lparr>Server = memStorer\<rparr>
        \<lparr>Context = [CTXKeyRM \<mapsto> AString ''false''], cookieState = Map.empty,
          sessionState = [SessionKey \<mapsto> ''u42'']\<rparr> False
        \<lparr>storage = \<lparr>tokens = [], users = [(''u42'', User ''u42'' ''alice'')]\<rparr>, trace = []\<rparr> =
      RememberAfterAuth (\<lambda>bs. take 3 (rev bs)) (Inr (replicate 32 (CHR ''a'')))
        \<lparr>Server = memStorer\<rparr>
        \<lparr>Context = [CTXKeyRM \<mapsto> ABool True], cookieState = Map.empty,
          sessionState = [SessionKey \<mapsto> ''u42'']\<rparr> False
        \<lparr>storage = \<lparr>tokens = [], users = [(''u42'', User ''u42'' ''alice'')]\<rparr>, trace = []\<rparr>
   \<and> CurrentUserP \<lparr>Server = memStorer\<rparr>
        \<lparr>Context = [CTXKeyRM \<mapsto> AString ''false''], cookieState = Map.empty,
          sessionState = [SessionKey \<mapsto> ''u42'']\<rparr>
        \<lparr>storage = \<lparr>tokens = [], users = [(''u42'', User ''u42'' ''alice'')]\<rparr>, trace = []\<rparr> =
      (Inr (User ''u42'' ''alice''),
       \<lparr>storage = \<lparr>tokens = [], users = [(''u42'', User ''u42'' ''alice'')]\<rparr>,
         trace = [EvLoad ''u42'']\<rparr>)
   \<and> length (replicate 32 (CHR ''a'')) = nNonceSize
   \<and> AddRememberToken memStorer ''u42'' ''YWFh''
        \<lparr>tokens = [], users = [(''u42'', User ''u42'' ''alice'')]\<rparr> =
      (None, \<lparr>tokens = [(''u42'', ''YWFh'')], users = [(''u42'', User ''u42'' ''alice'')]\<rparr>)
   \<and> RememberAfterAuth (\<lambda>bs. take 3 (rev bs)) (Inr (replicate 32 (CHR ''a'')))
        \<lparr>Server = memStorer\<rparr>
        \<lparr>Context = [CTXKeyRM \<mapsto> AString ''false''], cookieState = Map.empty,
          sessionState = [SessionKey \<mapsto> ''u42'']\<rparr> False
        \<lparr>storage = \<lparr>tokens = [], users = [(''u42'', User ''u42'' ''alice'')]\<rparr>, trace = []\<rparr> =
      (Inr (False, None),
       \<lparr>storage = \<lparr>tokens = [(''u42'', ''YWFh'')], users = [(''u42'', User ''u42'' ''alice'')]\<rparr>,
         trace = [EvLoad ''u42'', EvRandRead 32, EvAddRememberToken ''u42'' ''YWFh'',
                  EvPutCookie CookieRemember ''dTQyO2FhYWFhYWFhYWFhYWFhYWFhYWFhYWFhYWFhYWFhYWFh'']\<rparr>)"
proof -
  let ?sum = "\<lambda>bs :: string. take 3 (rev bs)"
  let ?nonce = "replicate 32 (CHR ''a'')"
  let ?ab = "\<lparr>Server = memStorer\<rparr>"
  let ?u = "User ''u42'' ''alice''"
  let ?s = "\<lparr>tokens = [], users = [(''u42'', ?u)]\<rparr>"
  let ?s2 = "\<lparr>tokens = [(''u42'', ''YWFh'')], users = [(''u42'', ?u)]\<rparr>"
  let ?w = "\<lparr>storage = ?s, trace = []\<rparr>"
  let ?w1 = "\<lparr>storage = ?s, trace = [EvLoad ''u42'']\<rparr>"
  let ?req = "\<lparr>Context = [CTXKeyRM \<mapsto> AString ''false''], cookieState = Map.empty,
      sessionState = [SessionKey \<mapsto> ''u42'']\<rparr>"
  let ?tok = "''dTQyO2FhYWFhYWFhYWFhYWFhYWFhYWFhYWFhYWFhYWFhYWFh''"
  have c: "Context ?req CTXKeyRM = Some (AString ''false'')" by simp
  have v: "AString ''false'' \<noteq> ABool False" by simp
  have cu: "CurrentUserP ?ab ?req ?w = (Inr ?u, ?w1)" by code_simp
  have len: "length ?nonce = nNonceSize" by (simp add: nNonceSize_def)
  have h: "''YWFh'' = EncodeToString StdEncoding (?sum (GetPID ?u @ CHR '';'' # ?nonce))"
    by code_simp
  have t: "?tok = EncodeToString URLEncoding (GetPID ?u @ CHR '';'' # ?nonce)"
    by code_simp
  have ad: "AddRememberToken memStorer ''u42'' ''YWFh'' ?s = (None, ?s2)"
    by (simp add: memStorer_def)
  have ad': "AddRememberToken (Server ?ab) (GetPID ?u) ''YWFh'' (storage ?w1) = (None, ?s2)"
    using ad by simp
  note th = RememberAfterAuth_opt_in [where ?Sum512.0 = ?sum, OF c v, where r = ?ab
      and rnd = "Inr ?nonce" and handled = False and w = ?w and u = ?u and ?w1.0 = ?w1
      and nonce = ?nonce and hash = "''YWFh''" and token = ?tok and ?s2.0 = ?s2]
  have eq: "\<lparr>Context = [CTXKeyRM \<mapsto> AString ''false''], cookieState = Map.empty,
      sessionState = [SessionKey \<mapsto> ''u42'']\<rparr>\<lparr>Context := (Context ?req)(CTXKeyRM \<mapsto> ABool True)\<rparr> =
      \<lparr>Context = [CTXKeyRM \<mapsto> ABool True], cookieState = Map.empty,
      sessionState = [SessionKey \<mapsto> ''u42'']\<rparr>"
    by simp
  from th [THEN conjunct1] have r1: "RememberAfterAuth ?sum (Inr ?nonce) ?ab ?req False ?w =
      RememberAfterAuth ?sum (Inr ?nonce) ?ab
        \<lparr>Context = [CTXKeyRM \<mapsto> ABool True], cookieState = Map.empty,
          sessionState = [SessionKey \<mapsto> ''u42'']\<rparr> False ?w"
    unfolding eq .
  have ante: "CurrentUserP ?ab ?req ?w = (Inr ?u, ?w1) \<and> (Inr ?nonce :: error + string) = Inr ?nonce \<and>
      length ?nonce = nNonceSize \<and>
      ''YWFh'' = EncodeToString StdEncoding (?sum (GetPID ?u @ CHR '';'' # ?nonce)) \<and>
      ?tok = EncodeToString URLEncoding (GetPID ?u @ CHR '';'' # ?nonce) \<and>
      AddRememberToken (Server ?ab) (GetPID ?u) ''YWFh'' (storage ?w1) = (None, ?s2)"
    using cu len h t ad' by (intro conjI refl)
  from th [THEN conjunct2, THEN mp, OF ante]
  have r2: "RememberAfterAuth ?sum (Inr ?nonce) ?ab ?req False ?w =
      (Inr (False, None),
       \<lparr>storage = ?s2,
         trace = [EvLoad ''u42'', EvRandRead 32, EvAddRememberToken ''u42'' ''YWFh'',
                  EvPutCookie CookieRemember ?tok]\<rparr>)"
    by (simp add: nNonceSize_def)
  show ?thesis
    by (intro conjI) (fact c v r1 cu len ad r2)+
qed



section \<open>The hook after a password reset\<close>

lemma AfterPasswordReset_cases:
  "AfterPasswordReset r req handled w =
     (case CurrentUser r req w of
        (Inl p, w1) \<Rightarrow> (Inl p, w1)
      | (Inr (user, Some e), w1) \<Rightarrow> (Inr (False, Some e), w1)
      | (Inr (None, None), w1) \<Rightarrow> (Inl PanicNilDereference, w1)
      | (Inr (Some u, None), w1) \<Rightarrow>
          (case callDelRememberTokens (Server r) (GetPID u)
                  (Infof (''deleting tokens and rm cookies for user '' @ GetPID u @
                          '' due to password reset'') (DelCookie CookieRemember w1)) of
             (err, w2) \<Rightarrow> (Inr (False, err), w2)))"
  by (auto simp: AfterPasswordReset_def EnsureCanRemember_def Let_def
      split: prod.splits option.splits sum.splits)

text \<open>
  Claim C7, as amended. When \<^const>\<open>CurrentUser\<close> resolves a user, \<^const>\<open>AfterPasswordReset\<close>
  deletes the remember cookie, calls \<^verbatim>\<open>DelRememberTokens\<close> for the pid of that user and
  returns handled false with whatever error the deletion gave. When \<^const>\<open>CurrentUser\<close>
  returns an error, that error is returned with handled false, and neither the cookie nor
  the tokens are deleted.
\<close>

theorem AfterPasswordReset_resolved:
  "(CurrentUser r req w = (Inr (Some u, None), w1) \<and>
    DelRememberTokens (Server r) (GetPID u) (storage w1) = (res, s2) \<longrightarrow>
      AfterPasswordReset r req handled w =
        (Inr (False, res),
         w1\<lparr>storage := s2,
            trace := trace w1 @
              [EvDelCookie CookieRemember,
               EvInfof (''deleting tokens and rm cookies for user '' @ GetPID u @
                        '' due to password reset''),
               EvDelRememberTokens (GetPID u)]\<rparr>))
   \<and> (CurrentUser r req w = (Inr (None, Some e), w1) \<longrightarrow>
      AfterPasswordReset r req handled w = (Inr (False, Some e), w1))"
proof (intro conjI impI)
  assume a: "CurrentUser r req w = (Inr (Some u, None), w1) \<and>
    DelRememberTokens (Server r) (GetPID u) (storage w1) = (res, s2)"
  then have cu: "CurrentUser r req w = (Inr (Some u, None), w1)"
    and dl: "DelRememberTokens (Server r) (GetPID u) (storage w1) = (res, s2)" by simp_all
  let ?w' = "Infof (''deleting tokens and rm cookies for user '' @ GetPID u @
                          '' due to password reset'') (DelCookie CookieRemember w1)"
  have dl': "DelRememberTokens (Server r) (GetPID u) (storage ?w') = (res, s2)"
    using dl by (simp add: Infof_def DelCookie_def emit_def)
  show "AfterPasswordReset r req handled w =
        (Inr (False, res),
         w1\<lparr>storage := s2,
            trace := trace w1 @
              [EvDelCookie CookieRemember,
               EvInfof (''deleting tokens and rm cookies for user '' @ GetPID u @
                        '' due to password reset''),
               EvDelRememberTokens (GetPID u)]\<rparr>)"
    unfolding AfterPasswordReset_cases cu
    using callDelRememberTokens_eq [OF dl']
    by (simp add: Infof_def DelCookie_def emit_def)
next
  assume "CurrentUser r req w = (Inr (None, Some e), w1)"
  then show "AfterPasswordReset r req handled w = (Inr (False, Some e), w1)"
    by (simp add: AfterPasswordReset_cases)
qed


theorem AfterPasswordReset_resolved_witness:
  "CurrentUser \<lparr>Server = memStorer\<rparr>
       \<lparr>Context = Map.empty, cookieState = Map.empty, sessionState = [SessionKey \<mapsto> ''u42'']\<rparr>
       \<lparr>storage = \<lparr>tokens = [(''u42'', ''AAAA''), (''u7'', ''YWFh''), (''u42'', ''YmJi'')],
                    users = [(''u42'', User ''u42'' ''alice'')]\<rparr>, trace = []\<rparr> =
     (Inr (Some (User ''u42'' ''alice''), None),
      \<lparr>storage = \<lparr>tokens = [(''u42'', ''AAAA''), (''u7'', ''YWFh''), (''u42'', ''YmJi'')],
                   users = [(''u42'', User ''u42'' ''alice'')]\<rparr>, trace = [EvLoad ''u42'']\<rparr>)
   \<and> DelRememberTokens memStorer ''u42''
        \<lparr>tokens = [(''u42'', ''AAAA''), (''u7'', ''YWFh''), (''u42'', ''YmJi'')],
          users = [(''u42'', User ''u42'' ''alice'')]\<rparr> =
      (None, \<lparr>tokens = [(''u7'', ''YWFh'')], users = [(''u42'', User ''u42'' ''alice'')]\<rparr>)
   \<and> AfterPasswordReset \<lparr>Server = memStorer\<rparr>
        \<lparr>Context = Map.empty, cookieState = Map.empty, sessionState = [SessionKey \<mapsto> ''u42'']\<rparr>
        True
        \<lparr>storage = \<lparr>tokens = [(''u42'', ''AAAA''), (''u7'', ''YWFh''), (''u42'', ''YmJi'')],
                     users = [(''u42'', User ''u42'' ''alice'')]\<rparr>, trace = []\<rparr> =
      (Inr (False, None),
       \<lparr>storage = \<lparr>tokens = [(''u7'', ''YWFh'')], users = [(''u42'', User ''u42'' ''alice'')]\<rparr>,
         trace = [EvLoad ''u42'', EvDelCookie CookieRemember,
                  EvInfof ''deleting tokens and rm cookies for user u42 due to password reset'',
                  EvDelRememberTokens ''u42'']\<rparr>)
   \<and> CurrentUser \<lparr>Server = memStorer\<rparr>
       \<lparr>Context = Map.empty, cookieState = Map.empty, sessionState = [SessionKey \<mapsto> ''u9'']\<rparr>
       \<lparr>storage = \<lparr>tokens = [(''u42'', ''AAAA''), (''u7'', ''YWFh''), (''u42'', ''YmJi'')],
                    users = [(''u42'', User ''u42'' ''alice'')]\<rparr>, trace = []\<rparr> =
     (Inr (None, Some ErrUserNotFound),
      \<lparr>storage = \<lparr>tokens = [(''u42'', ''AAAA''), (''u7'', ''YWFh''), (''u42'', ''YmJi'')],
                   users = [(''u42'', User ''u42'' ''alice'')]\<rparr>, trace = [EvLoad ''u9'']\<rparr>)
   \<and> AfterPasswordReset \<lparr>Server = memStorer\<rparr>
        \<lparr>Context = Map.empty, cookieState = Map.empty, sessionState = [SessionKey \<mapsto> ''u9'']\<rparr>
        True
        \<lparr>storage = \<lparr>tokens = [(''u42'', ''AAAA''), (''u7'', ''YWFh''), (''u42'', ''YmJi'')],
                     users = [(''u42'', User ''u42'' ''alice'')]\<rparr>, trace = []\<rparr> =
      (Inr (False, Some ErrUserNotFound),
       \<lparr>storage = \<lparr>tokens = [(''u42'', ''AAAA''), (''u7'', ''YWFh''), (''u42'', ''YmJi'')],
                   users = [(''u42'', User ''u42'' ''alice'')]\<rparr>, trace = [EvLoad ''u9'']\<rparr>)"
proof -
  let ?ab = "\<lparr>Server = memStorer\<rparr>"
  let ?u = "User ''u42'' ''alice''"
  let ?s = "\<lparr>tokens = [(''u42'', ''AAAA''), (''u7'', ''YWFh''), (''u42'', ''YmJi'')],
      users = [(''u42'', ?u)]\<rparr>"
  let ?s2 = "\<lparr>tokens = [(''u7'', ''YWFh'')], users = [(''u42'', ?u)]\<rparr>"
  let ?w = "\<lparr>storage = ?s, trace = []\<rparr>"
  let ?w1 = "\<lparr>storage = ?s, trace = [EvLoad ''u42'']\<rparr>"
  let ?w9 = "\<lparr>storage = ?s, trace = [EvLoad ''u9'']\<rparr>"
  let ?req = "\<lparr>Context = Map.empty, cookieState = Map.empty,
      sessionState = [SessionKey \<mapsto> ''u42'']\<rparr>"
  let ?req9 = "\<lparr>Context = Map.empty, cookieState = Map.empty,
      sessionState = [SessionKey \<mapsto> ''u9'']\<rparr>"
  have cu: "CurrentUser ?ab ?req ?w = (Inr (Some ?u, None), ?w1)" by code_simp
  have cu9: "CurrentUser ?ab ?req9 ?w = (Inr (None, Some ErrUserNotFound), ?w9)" by code_simp
  have dl: "DelRememberTokens memStorer ''u42'' ?s = (None, ?s2)"
    by (simp add: memStorer_def)
  have dl': "DelRememberTokens (Server ?ab) (GetPID ?u) (storage ?w1) = (None, ?s2)"
    using dl by simp
  from AfterPasswordReset_resolved [where r = ?ab and req = ?req and w = ?w and u = ?u
      and ?w1.0 = ?w1 and res = None and ?s2.0 = ?s2 and handled = True,
      THEN conjunct1, THEN mp, OF conjI [OF cu dl']]
  have r1: "AfterPasswordReset ?ab ?req True ?w =
      (Inr (False, None),
       \<lparr>storage = ?s2,
         trace = [EvLoad ''u42'', EvDelCookie CookieRemember,
                  EvInfof ''deleting tokens and rm cookies for user u42 due to password reset'',
                  EvDelRememberTokens ''u42'']\<rparr>)"
    by simp
  note r2 = AfterPasswordReset_resolved [where r = ?ab and req = ?req9 and w = ?w
      and ?w1.0 = ?w9 and e = ErrUserNotFound and handled = True,
      THEN conjunct2, THEN mp, OF cu9]
  show ?thesis
    by (intro conjI) (fact cu cu9 dl r1 r2)+
qed



text \<open>
  The claim as stated, for every request, fails for a request with no session: the hook
  returns \<^const>\<open>ErrUserNotFound\<close>, no cookie is deleted and the tokens stay.
\<close>

theorem AfterPasswordReset_anonymous_counterexample:
  "AfterPasswordReset \<lparr>Server = memStorer\<rparr>
     \<lparr>Context = Map.empty,
       cookieState = [CookieRemember \<mapsto> ''dTQyOwAAAAAAAAAAAAAAAAAAAAAAAAAAAAAAAAAAAAAAAAAA''],
       sessionState = Map.empty\<rparr>
     False
     \<lparr>storage = \<lparr>tokens = [(''u42'', ''AAAA'')], users = [(''u42'', User ''u42'' ''alice'')]\<rparr>,
       trace = []\<rparr> =
   (Inr (False, Some ErrUserNotFound),
    \<lparr>storage = \<lparr>tokens = [(''u42'', ''AAAA'')], users = [(''u42'', User ''u42'' ''alice'')]\<rparr>,
      trace = []\<rparr>)"
  by code_simp

section \<open>The identity cache within one request\<close>

lemma storageLoads_snoc_Load: "storageLoads (evs @ [EvLoad pid]) = storageLoads evs + 1"
  by (simp add: storageLoads_def)

lemma LoadCurrentUserID_resolves:
  assumes "CurrentUserID r = Inr (pid, None)" and "pid \<noteq> []"
  shows "\<exists>r1. LoadCurrentUserID r = (Inr (pid, None), r1) \<and>
           Context r1 CTXKeyUser = Context r CTXKeyUser"
  using assms
  by (auto simp: LoadCurrentUserID_def CurrentUserID_def split: option.splits any.splits)

text \<open>
  Claim C6, as amended. With a user record attached to the context, \<^const>\<open>LoadCurrentUser\<close>
  returns that record and leaves request and world as they are: no storage load. When no
  user is attached, a non-empty pid is resolved and the load succeeds, the first call loads
  once and attaches the user, and a second call on the request it returned gives the same
  user with no further load: one storage load in total.
\<close>

theorem LoadCurrentUser_cache:
  "(Context r CTXKeyUser = Some (AUser u) \<longrightarrow>
      LoadCurrentUser a r w = (Inr (Some u, None), r, w))
   \<and> (Context r CTXKeyUser = None \<and> CurrentUserID r = Inr (pid, None) \<and> pid \<noteq> [] \<and>
      Load (Server a) pid (storage w) = (Inr u, s1) \<longrightarrow>
      (\<exists>r1. LoadCurrentUser a r w =
              (Inr (Some u, None), r1, w\<lparr>storage := s1, trace := trace w @ [EvLoad pid]\<rparr>)
          \<and> LoadCurrentUser a r1 (w\<lparr>storage := s1, trace := trace w @ [EvLoad pid]\<rparr>) =
              (Inr (Some u, None), r1, w\<lparr>storage := s1, trace := trace w @ [EvLoad pid]\<rparr>)
          \<and> storageLoads (trace (w\<lparr>storage := s1, trace := trace w @ [EvLoad pid]\<rparr>)) =
              storageLoads (trace w) + 1))"
proof (intro conjI impI)
  assume "Context r CTXKeyUser = Some (AUser u)"
  then show "LoadCurrentUser a r w = (Inr (Some u, None), r, w)"
    by (simp add: LoadCurrentUser_def)
next
  let ?w1 = "w\<lparr>storage := s1, trace := trace w @ [EvLoad pid]\<rparr>"
  assume a: "Context r CTXKeyUser = None \<and> CurrentUserID r = Inr (pid, None) \<and> pid \<noteq> [] \<and>
      Load (Server a) pid (storage w) = (Inr u, s1)"
  then have nu: "Context r CTXKeyUser = None" and id: "CurrentUserID r = Inr (pid, None)"
    and ne: "pid \<noteq> []" and ld: "Load (Server a) pid (storage w) = (Inr u, s1)"
    by blast+
  from LoadCurrentUserID_resolves [OF id ne] obtain r0
    where r0: "LoadCurrentUserID r = (Inr (pid, None), r0)" by blast
  let ?r1 = "r0\<lparr>Context := (Context r0)(CTXKeyUser \<mapsto> AUser u)\<rparr>"
  have cu: "currentUser a pid w = ((Some u, None), ?w1)"
    by (simp add: currentUser_def callLoad_eq [OF ld])
  have first: "LoadCurrentUser a r w = (Inr (Some u, None), ?r1, ?w1)"
    using nu ne by (simp add: LoadCurrentUser_def r0 cu)
  have second: "LoadCurrentUser a ?r1 ?w1 = (Inr (Some u, None), ?r1, ?w1)"
    by (simp add: LoadCurrentUser_def)
  have loads: "storageLoads (trace ?w1) = storageLoads (trace w) + 1"
    by (simp add: storageLoads_snoc_Load)
  from first second loads
  show "\<exists>r1. LoadCurrentUser a r w = (Inr (Some u, None), r1, ?w1)
          \<and> LoadCurrentUser a r1 ?w1 = (Inr (Some u, None), r1, ?w1)
          \<and> storageLoads (trace ?w1) = storageLoads (trace w) + 1"
    by blast
qed

theorem LoadCurrentUser_cache_witness:
  "Context \<lparr>Context = [CTXKeyUser \<mapsto> AUser (User ''u42'' ''alice'')], cookieState = Map.empty,
       sessionState = Map.empty\<rparr> CTXKeyUser = Some (AUser (User ''u42'' ''alice''))
   \<and> LoadCurrentUser \<lparr>Server = memStorer\<rparr>
        \<lparr>Context = [CTXKeyUser \<mapsto> AUser (User ''u42'' ''alice'')], cookieState = Map.empty,
          sessionState = Map.empty\<rparr>
        \<lparr>storage = \<lparr>tokens = [], users = [(''u42'', User ''u42'' ''bob'')]\<rparr>, trace = []\<rparr> =
      (Inr (Some (User ''u42'' ''alice''), None),
       \<lparr>Context = [CTXKeyUser \<mapsto> AUser (User ''u42'' ''alice'')], cookieState = Map.empty,
          sessionState = Map.empty\<rparr>,
       \<lparr>storage = \<lparr>tokens = [], users = [(''u42'', User ''u42'' ''bob'')]\<rparr>, trace = []\<rparr>)
   \<and> Context \<lparr>Context = Map.empty, cookieState = Map.empty,
       sessionState = [SessionKey \<mapsto> ''u42'']\<rparr> CTXKeyUser = None
   \<and> CurrentUserID \<lparr>Context = Map.empty, cookieState = Map.empty,
       sessionState = [SessionKey \<mapsto> ''u42'']\<rparr> = Inr (''u42'', None)
   \<and> ''u42'' \<noteq> []
   \<and> Load memStorer ''u42'' \<lparr>tokens = [], users = [(''u42'', User ''u42'' ''bob'')]\<rparr> =
        (Inr (User ''u42'' ''bob''), \<lparr>tokens = [], users = [(''u42'', User ''u42'' ''bob'')]\<rparr>)
   \<and> (\<exists>r1. LoadCurrentUser \<lparr>Server = memStorer\<rparr>
          \<lparr>Context = Map.empty, cookieState = Map.empty, sessionState = [SessionKey \<mapsto> ''u42'']\<rparr>
          \<lparr>storage = \<lparr>tokens = [], users = [(''u42'', User ''u42'' ''bob'')]\<rparr>, trace = []\<rparr> =
        (Inr (Some (User ''u42'' ''bob''), None), r1,
         \<lparr>storage = \<lparr>tokens = [], users = [(''u42'', User ''u42'' ''bob'')]\<rparr>,
           trace = [EvLoad ''u42'']\<rparr>)
      \<and> LoadCurrentUser \<lparr>Server = memStorer\<rparr> r1
          \<lparr>storage = \<lparr>tokens = [], users = [(''u42'', User ''u42'' ''bob'')]\<rparr>,
            trace = [EvLoad ''u42'']\<rparr> =
        (Inr (Some (User ''u42'' ''bob''), None), r1,
         \<lparr>storage = \<lparr>tokens = [], users = [(''u42'', User ''u42'' ''bob'')]\<rparr>,
           trace = [EvLoad ''u42'']\<rparr>)
      \<and> storageLoads [EvLoad ''u42''] = storageLoads [] + 1)"
proof -
  let ?ab = "\<lparr>Server = memStorer\<rparr>"
  let ?s = "\<lparr>tokens = [], users = [(''u42'', User ''u42'' ''bob'')]\<rparr>"
  let ?w = "\<lparr>storage = ?s, trace = []\<rparr>"
  let ?reqU = "\<lparr>Context = [CTXKeyUser \<mapsto> AUser (User ''u42'' ''alice'')],
      cookieState = Map.empty, sessionState = Map.empty\<rparr>"
  let ?req = "\<lparr>Context = Map.empty, cookieState = Map.empty,
      sessionState = [SessionKey \<mapsto> ''u42'']\<rparr>"
  have cu: "Context ?reqU CTXKeyUser = Some (AUser (User ''u42'' ''alice''))" by simp
  have nu: "Context ?req CTXKeyUser = None" by simp
  have id: "CurrentUserID ?req = Inr (''u42'', None)"
    by (simp add: CurrentUserID_def GetSession_def)
  have ne: "''u42'' \<noteq> []" by simp
  have ld: "Load memStorer ''u42'' ?s = (Inr (User ''u42'' ''bob''), ?s)"
    by (simp add: memStorer_def)
  have ld': "Load (Server ?ab) ''u42'' (storage ?w) = (Inr (User ''u42'' ''bob''), ?s)"
    using ld by simp
  note r1 = LoadCurrentUser_cache [where r = ?reqU and u = "User ''u42'' ''alice''"
      and a = ?ab and w = ?w, THEN conjunct1, THEN mp, OF cu]
  have ante: "Context ?req CTXKeyUser = None \<and> CurrentUserID ?req = Inr (''u42'', None) \<and>
      ''u42'' \<noteq> [] \<and> Load (Server ?ab) ''u42'' (storage ?w) = (Inr (User ''u42'' ''bob''), ?s)"
    using nu id ne ld' by (intro conjI)
  from LoadCurrentUser_cache [where r = ?req and pid = "''u42''" and u = "User ''u42'' ''bob''"
      and a = ?ab and w = ?w and ?s1.0 = ?s, THEN conjunct2, THEN mp, OF ante]
  have r2: "\<exists>r1. LoadCurrentUser ?ab ?req ?w =
        (Inr (Some (User ''u42'' ''bob''), None), r1, \<lparr>storage = ?s, trace = [EvLoad ''u42'']\<rparr>)
      \<and> LoadCurrentUser ?ab r1 \<lparr>storage = ?s, trace = [EvLoad ''u42'']\<rparr> =
        (Inr (Some (User ''u42'' ''bob''), None), r1, \<lparr>storage = ?s, trace = [EvLoad ''u42'']\<rparr>)
      \<and> storageLoads [EvLoad ''u42''] = storageLoads [] + 1"
    by simp
  show ?thesis
    by (intro conjI) (fact cu nu id ne ld r1 r2)+
qed



text \<open>
  The claim as stated, one load in total for any two chained resolutions, fails in both
  directions: a request with no pid performs no load, and a request whose load fails
  caches nothing and loads twice.
\<close>

theorem LoadCurrentUser_twice_counterexample:
  "(case LoadCurrentUser \<lparr>Server = memStorer\<rparr>
           \<lparr>Context = Map.empty, cookieState = Map.empty, sessionState = Map.empty\<rparr>
           \<lparr>storage = \<lparr>tokens = [], users = [(''u42'', User ''u42'' ''bob'')]\<rparr>, trace = []\<rparr> of
      (res1, r1, w1) \<Rightarrow>
        (case LoadCurrentUser \<lparr>Server = memStorer\<rparr> r1 w1 of
           (res2, r2, w2) \<Rightarrow> (res1, res2, storageLoads (trace w2)))) =
     (Inr (None, None), Inr (None, None), 0)
   \<and> (case LoadCurrentUser \<lparr>Server = memStorer\<rparr>
           \<lparr>Context = Map.empty, cookieState = Map.empty,
             sessionState = [SessionKey \<mapsto> ''u9'']\<rparr>
           \<lparr>storage = \<lparr>tokens = [], users = [(''u42'', User ''u42'' ''bob'')]\<rparr>, trace = []\<rparr> of
      (res1, r1, w1) \<Rightarrow>
        (case LoadCurrentUser \<lparr>Server = memStorer\<rparr> r1 w1 of
           (res2, r2, w2) \<Rightarrow> (res1, res2, storageLoads (trace w2)))) =
     (Inr (None, Some ErrUserNotFound), Inr (None, Some ErrUserNotFound), 2)"
  by code_simp

section \<open>Token rotation\<close>

lemma Authenticate_success:
  assumes "cookieState req CookieRemember = Some cookie"
    and "DecodeString URLEncoding cookie = Some raw"
    and "CHR '';'' \<in> set raw"
    and "pid = takeWhile (\<lambda>c. c \<noteq> CHR '';'') raw"
    and "hash = EncodeToString StdEncoding (Sum512 raw)"
    and "length nonce = nNonceSize"
    and "newhash = EncodeToString StdEncoding (Sum512 (pid @ CHR '';'' # nonce))"
    and "token = EncodeToString URLEncoding (pid @ CHR '';'' # nonce)"
    and "UseRememberToken (Server ab) pid hash (storage w) = (None, s1)"
    and "AddRememberToken (Server ab) pid newhash s1 = (None, s2)"
  shows "Authenticate Sum512 (Inr nonce) ab req w =
     (None, w\<lparr>storage := s2,
              trace := trace w @
                [EvUseRememberToken pid hash, EvRandRead nNonceSize,
                 EvAddRememberToken pid newhash, EvPutSession SessionKey pid,
                 EvPutSession SessionHalfAuthKey ''true'', EvDelCookie CookieRemember,
                 EvPutCookie CookieRemember token]\<rparr>)"
proof -
  let ?w2 = "w\<lparr>storage := s1,
      trace := trace w @ [EvUseRememberToken pid hash, EvRandRead nNonceSize]\<rparr>"
  have ad: "AddRememberToken (Server ab) pid newhash (storage ?w2) = (None, s2)"
    using assms(10) by simp
  have parsed: "Authenticate Sum512 (Inr nonce) ab req w =
     (case callUseRememberToken (Server ab) pid hash w of
        (Some err, w1) \<Rightarrow>
          if err = ErrTokenNotFound then
            (None, DelCookie CookieRemember
               (Infof ''remember me cookie had a token that was not in storage, deleting cookie'' w1))
          else (Some err, w1)
      | (None, w1) \<Rightarrow>
          (case GenerateToken Sum512 (Inr nonce) pid w1 of
             (Inl err, w2) \<Rightarrow> (Some err, w2)
           | (Inr (hash, token), w2) \<Rightarrow>
               (case callAddRememberToken (Server ab) pid hash w2 of
                  (Some err, w3) \<Rightarrow> (Some (Wrap err ''failed to save me token''), w3)
                | (None, w3) \<Rightarrow>
                    (None, PutCookie CookieRemember token
                       (DelCookie CookieRemember
                          (PutSession SessionHalfAuthKey ''true''
                             (PutSession SessionKey pid w3)))))))"
    unfolding assms(4,5) by (rule Authenticate_parsed [OF assms(1-3)])
  show ?thesis
    using callAddRememberToken_eq [OF ad]
    unfolding parsed callUseRememberToken_eq [OF assms(9)]
    by (simp add: GenerateToken_Inr [OF assms(6)] emit_def assms(7) [symmetric]
        assms(8) [symmetric] PutCookie_def DelCookie_def PutSession_def)
qed

text \<open>
  Claim C1, as amended. For a remember cookie that decodes to a token whose \<open>(pid, hash)\<close>
  the collaborator consumes, when the random source gives the 32-byte nonce and
  \<^verbatim>\<open>AddRememberToken\<close> succeeds, \<^const>\<open>Authenticate\<close> generates the replacement token,
  stores its hash, writes the session entries for the pid and the half-authenticated flag,
  deletes the remember cookie, writes the new token as remember cookie and returns nil. On
  the reference collaborator, when the replacement hash was not already stored for the pid,
  the consumed token is unusable afterwards and exactly one token is new for that pid, with
  a hash different from the consumed one.
\<close>

theorem Authenticate_rotates:
  assumes "cookieState req CookieRemember = Some cookie"
    and "DecodeString URLEncoding cookie = Some raw"
    and "CHR '';'' \<in> set raw"
    and "pid = takeWhile (\<lambda>c. c \<noteq> CHR '';'') raw"
    and "hash = EncodeToString StdEncoding (Sum512 raw)"
    and "length nonce = nNonceSize"
    and "newhash = EncodeToString StdEncoding (Sum512 (pid @ CHR '';'' # nonce))"
    and "token = EncodeToString URLEncoding (pid @ CHR '';'' # nonce)"
  shows "(UseRememberToken (Server ab) pid hash (storage w) = (None, s1) \<and>
          AddRememberToken (Server ab) pid newhash s1 = (None, s2) \<longrightarrow>
          Authenticate Sum512 (Inr nonce) ab req w =
            (None, w\<lparr>storage := s2,
                     trace := trace w @
                       [EvUseRememberToken pid hash, EvRandRead nNonceSize,
                        EvAddRememberToken pid newhash, EvPutSession SessionKey pid,
                        EvPutSession SessionHalfAuthKey ''true'', EvDelCookie CookieRemember,
                        EvPutCookie CookieRemember token]\<rparr>))
       \<and> ((pid, hash) \<in> set (tokens (storage wm)) \<and>
          (pid, newhash) \<notin> set (tokens (storage wm)) \<longrightarrow>
          (case Authenticate Sum512 (Inr nonce) \<lparr>Server = memStorer\<rparr> req wm of
             (err, wm') \<Rightarrow>
               err = None \<and> newhash \<noteq> hash
               \<and> set (tokens (storage wm')) =
                   insert (pid, newhash) (set (tokens (storage wm)) - {(pid, hash)})
               \<and> {t \<in> set (tokens (storage wm')). t \<notin> set (tokens (storage wm))} =
                   {(pid, newhash)}
               \<and> fst (UseRememberToken memStorer pid hash (storage wm')) =
                   Some ErrTokenNotFound))"
proof (intro conjI impI)
  assume "UseRememberToken (Server ab) pid hash (storage w) = (None, s1) \<and>
          AddRememberToken (Server ab) pid newhash s1 = (None, s2)"
  then have u: "UseRememberToken (Server ab) pid hash (storage w) = (None, s1)"
    and a: "AddRememberToken (Server ab) pid newhash s1 = (None, s2)" by blast+
  show "Authenticate Sum512 (Inr nonce) ab req w =
            (None, w\<lparr>storage := s2,
                     trace := trace w @
                       [EvUseRememberToken pid hash, EvRandRead nNonceSize,
                        EvAddRememberToken pid newhash, EvPutSession SessionKey pid,
                        EvPutSession SessionHalfAuthKey ''true'', EvDelCookie CookieRemember,
                        EvPutCookie CookieRemember token]\<rparr>)"
    by (rule Authenticate_success [OF assms u a])
next
  let ?s0 = "storage wm"
  let ?s1 = "?s0\<lparr>tokens := removeAll (pid, hash) (tokens ?s0)\<rparr>"
  let ?s2 = "?s1\<lparr>tokens := List.insert (pid, newhash) (tokens ?s1)\<rparr>"
  assume "(pid, hash) \<in> set (tokens (storage wm)) \<and> (pid, newhash) \<notin> set (tokens (storage wm))"
  then have old: "(pid, hash) \<in> set (tokens ?s0)" and fresh: "(pid, newhash) \<notin> set (tokens ?s0)"
    by blast+
  from old fresh have ne: "newhash \<noteq> hash" by auto
  have u: "UseRememberToken (Server \<lparr>Server = memStorer\<rparr>) pid hash (storage wm) = (None, ?s1)"
    using old by (simp add: memStorer_def)
  have a: "AddRememberToken (Server \<lparr>Server = memStorer\<rparr>) pid newhash ?s1 = (None, ?s2)"
    by (simp add: memStorer_def)
  note run = Authenticate_success [OF assms u a]
  have toks: "set (tokens ?s2) = insert (pid, newhash) (set (tokens ?s0) - {(pid, hash)})"
    by simp
  have new: "{t \<in> set (tokens ?s2). t \<notin> set (tokens ?s0)} = {(pid, newhash)}"
    using fresh by auto
  have gone: "fst (UseRememberToken memStorer pid hash ?s2) = Some ErrTokenNotFound"
    using ne by (simp add: memStorer_def)
  show "case Authenticate Sum512 (Inr nonce) \<lparr>Server = memStorer\<rparr> req wm of
             (err, wm') \<Rightarrow>
               err = None \<and> newhash \<noteq> hash
               \<and> set (tokens (storage wm')) =
                   insert (pid, newhash) (set (tokens (storage wm)) - {(pid, hash)})
               \<and> {t \<in> set (tokens (storage wm')). t \<notin> set (tokens (storage wm))} =
                   {(pid, newhash)}
               \<and> fst (UseRememberToken memStorer pid hash (storage wm')) =
                   Some ErrTokenNotFound"
    unfolding run using ne toks new gone by simp
qed


theorem Authenticate_rotates_witness:
  "cookieState \<lparr>Context = Map.empty,
       cookieState = [CookieRemember \<mapsto> ''dTQyOwAAAAAAAAAAAAAAAAAAAAAAAAAAAAAAAAAAAAAAAAAA''],
       sessionState = Map.empty\<rparr> CookieRemember =
     Some ''dTQyOwAAAAAAAAAAAAAAAAAAAAAAAAAAAAAAAAAAAAAAAAAA''
   \<and> DecodeString URLEncoding ''dTQyOwAAAAAAAAAAAAAAAAAAAAAAAAAAAAAAAAAAAAAAAAAA'' =
        Some (''u42;'' @ replicate 32 (CHR 0x00))
   \<and> CHR '';'' \<in> set (''u42;'' @ replicate 32 (CHR 0x00))
   \<and> ''u42'' = takeWhile (\<lambda>c. c \<noteq> CHR '';'') (''u42;'' @ replicate 32 (CHR 0x00))
   \<and> ''AAAA'' = EncodeToString StdEncoding (take 3 (rev (''u42;'' @ replicate 32 (CHR 0x00))))
   \<and> length (replicate 32 (CHR ''a'')) = nNonceSize
   \<and> ''YWFh'' = EncodeToString StdEncoding
         (take 3 (rev (''u42'' @ CHR '';'' # replicate 32 (CHR ''a''))))
   \<and> ''dTQyO2FhYWFhYWFhYWFhYWFhYWFhYWFhYWFhYWFhYWFhYWFh'' =
        EncodeToString URLEncoding (''u42'' @ CHR '';'' # replicate 32 (CHR ''a''))
   \<and> UseRememberToken memStorer ''u42'' ''AAAA''
        \<lparr>tokens = [(''u42'', ''AAAA''), (''u42'', ''YmJi'')], users = []\<rparr> =
      (None, \<lparr>tokens = [(''u42'', ''YmJi'')], users = []\<rparr>)
   \<and> AddRememberToken memStorer ''u42'' ''YWFh'' \<lparr>tokens = [(''u42'', ''YmJi'')], users = []\<rparr> =
      (None, \<lparr>tokens = [(''u42'', ''YWFh''), (''u42'', ''YmJi'')], users = []\<rparr>)
   \<and> Authenticate (\<lambda>bs. take 3 (rev bs)) (Inr (replicate 32 (CHR ''a''))) \<lparr>Server = memStorer\<rparr>
        \<lparr>Context = Map.empty,
          cookieState = [CookieRemember \<mapsto> ''dTQyOwAAAAAAAAAAAAAAAAAAAAAAAAAAAAAAAAAAAAAAAAAA''],
          sessionState = Map.empty\<rparr>
        \<lparr>storage = \<lparr>tokens = [(''u42'', ''AAAA''), (''u42'', ''YmJi'')], users = []\<rparr>,
          trace = []\<rparr> =
      (None,
       \<lparr>storage = \<lparr>tokens = [(''u42'', ''YWFh''), (''u42'', ''YmJi'')], users = []\<rparr>,
         trace = [EvUseRememberToken ''u42'' ''AAAA'', EvRandRead 32,
                  EvAddRememberToken ''u42'' ''YWFh'', EvPutSession SessionKey ''u42'',
                  EvPutSession SessionHalfAuthKey ''true'', EvDelCookie CookieRemember,
                  EvPutCookie CookieRemember
                    ''dTQyO2FhYWFhYWFhYWFhYWFhYWFhYWFhYWFhYWFhYWFhYWFh'']\<rparr>)
   \<and> (''u42'', ''AAAA'') \<in> set [(''u42'', ''AAAA''), (''u42'', ''YmJi'')]
   \<and> (''u42'', ''YWFh'') \<notin> set [(''u42'', ''AAAA''), (''u42'', ''YmJi'')]
   \<and> ''YWFh'' \<noteq> ''AAAA''
   \<and> set [(''u42'', ''YWFh''), (''u42'', ''YmJi'')] =
        insert (''u42'', ''YWFh'') (set [(''u42'', ''AAAA''), (''u42'', ''YmJi'')] - {(''u42'', ''AAAA'')})
   \<and> {t \<in> set [(''u42'', ''YWFh''), (''u42'', ''YmJi'')].
          t \<notin> set [(''u42'', ''AAAA''), (''u42'', ''YmJi'')]} = {(''u42'', ''YWFh'')}
   \<and> fst (UseRememberToken memStorer ''u42'' ''AAAA''
          \<lparr>tokens = [(''u42'', ''YWFh''), (''u42'', ''YmJi'')], users = []\<rparr>) =
        Some ErrTokenNotFound"
proof -
  let ?tok = "''dTQyOwAAAAAAAAAAAAAAAAAAAAAAAAAAAAAAAAAAAAAAAAAA''"
  let ?newtok = "''dTQyO2FhYWFhYWFhYWFhYWFhYWFhYWFhYWFhYWFhYWFhYWFh''"
  let ?raw = "''u42;'' @ replicate 32 (CHR 0x00)"
  let ?nonce = "replicate 32 (CHR ''a'')"
  let ?sum = "\<lambda>bs :: string. take 3 (rev bs)"
  let ?ab = "\<lparr>Server = memStorer\<rparr>"
  let ?req = "\<lparr>Context = Map.empty, cookieState = [CookieRemember \<mapsto> ?tok],
      sessionState = Map.empty\<rparr>"
  let ?s0 = "\<lparr>tokens = [(''u42'', ''AAAA''), (''u42'', ''YmJi'')], users = []\<rparr>"
  let ?s1 = "\<lparr>tokens = [(''u42'', ''YmJi'')], users = []\<rparr>"
  let ?s2 = "\<lparr>tokens = [(''u42'', ''YWFh''), (''u42'', ''YmJi'')], users = []\<rparr>"
  let ?w = "\<lparr>storage = ?s0, trace = []\<rparr>"
  let ?w' = "\<lparr>storage = ?s2,
         trace = [EvUseRememberToken ''u42'' ''AAAA'', EvRandRead 32,
                  EvAddRememberToken ''u42'' ''YWFh'', EvPutSession SessionKey ''u42'',
                  EvPutSession SessionHalfAuthKey ''true'', EvDelCookie CookieRemember,
                  EvPutCookie CookieRemember ?newtok]\<rparr>"
  have c: "cookieState ?req CookieRemember = Some ?tok" by simp
  have d: "DecodeString URLEncoding ?tok = Some ?raw" by code_simp
  have m: "CHR '';'' \<in> set ?raw" by simp
  have p: "''u42'' = takeWhile (\<lambda>c. c \<noteq> CHR '';'') ?raw" by simp
  have h: "''AAAA'' = EncodeToString StdEncoding (?sum ?raw)" by code_simp
  have len: "length ?nonce = nNonceSize" by (simp add: nNonceSize_def)
  have nh: "''YWFh'' = EncodeToString StdEncoding (?sum (''u42'' @ CHR '';'' # ?nonce))"
    by code_simp
  have nt: "?newtok = EncodeToString URLEncoding (''u42'' @ CHR '';'' # ?nonce)"
    by code_simp
  have u: "UseRememberToken memStorer ''u42'' ''AAAA'' ?s0 = (None, ?s1)"
    by (simp add: memStorer_def)
  have a: "AddRememberToken memStorer ''u42'' ''YWFh'' ?s1 = (None, ?s2)"
    by (simp add: memStorer_def)
  have old: "(''u42'', ''AAAA'') \<in> set [(''u42'', ''AAAA''), (''u42'', ''YmJi'')]" by simp
  have fresh: "(''u42'', ''YWFh'') \<notin> set [(''u42'', ''AAAA''), (''u42'', ''YmJi'')]" by simp
  note th = Authenticate_rotates [where ?Sum512.0 = ?sum, OF c d m p h len nh nt,
      where ab = ?ab and w = ?w and ?s1.0 = ?s1 and ?s2.0 = ?s2 and wm = ?w]
  have ante1: "UseRememberToken (Server ?ab) ''u42'' ''AAAA'' (storage ?w) = (None, ?s1) \<and>
      AddRememberToken (Server ?ab) ''u42'' ''YWFh'' ?s1 = (None, ?s2)"
    using u a by simp
  from th [THEN conjunct1, THEN mp, OF ante1]
  have r1: "Authenticate ?sum (Inr ?nonce) ?ab ?req ?w = (None, ?w')"
    by (simp add: nNonceSize_def)
  have ante2: "(''u42'', ''AAAA'') \<in> set (tokens (storage ?w)) \<and>
      (''u42'', ''YWFh'') \<notin> set (tokens (storage ?w))"
    using old fresh by simp
  note r2 = th [THEN conjunct2, THEN mp, OF ante2, unfolded r1 prod.case]
  from r2 have ne: "''YWFh'' \<noteq> ''AAAA''" by blast
  from r2 have toks: "set [(''u42'', ''YWFh''), (''u42'', ''YmJi'')] =
      insert (''u42'', ''YWFh'') (set [(''u42'', ''AAAA''), (''u42'', ''YmJi'')] - {(''u42'', ''AAAA'')})"
    by simp
  from r2 have new: "{t \<in> set [(''u42'', ''YWFh''), (''u42'', ''YmJi'')].
      t \<notin> set [(''u42'', ''AAAA''), (''u42'', ''YmJi'')]} = {(''u42'', ''YWFh'')}"
    by simp
  from r2 have gone: "fst (UseRememberToken memStorer ''u42'' ''AAAA'' ?s2) = Some ErrTokenNotFound"
    by simp
  show ?thesis
    by (intro conjI) (fact c d m p h len nh nt u a r1 old fresh ne toks new gone)+
qed


text \<open>
  The claim as stated fails twice. A consumed token does not ensure a nil result: when
  \<^verbatim>\<open>AddRememberToken\<close> fails after the consumption, the error is returned and no session
  entry is written. And the replacement hash differs from the consumed one only if the
  nonce does: under any hash function, here the identity, a random source that gives the
  nonce of the consumed token again stores the very hash that was consumed, so the old
  token is usable again and no token with another hash exists.
\<close>

theorem Authenticate_rotates_counterexample:
  "UseRememberToken
       (memStorer\<lparr>AddRememberToken := \<lambda>pid hash s. (Some (Err ''disk full''), s)\<rparr>)
       ''u42'' ''AAAA'' \<lparr>tokens = [(''u42'', ''AAAA'')], users = []\<rparr> =
     (None, \<lparr>tokens = [], users = []\<rparr>)
   \<and> Authenticate (\<lambda>bs. take 3 (rev bs)) (Inr (replicate 32 (CHR ''a'')))
        \<lparr>Server = memStorer\<lparr>AddRememberToken := \<lambda>pid hash s. (Some (Err ''disk full''), s)\<rparr>\<rparr>
        \<lparr>Context = Map.empty,
          cookieState = [CookieRemember \<mapsto> ''dTQyOwAAAAAAAAAAAAAAAAAAAAAAAAAAAAAAAAAAAAAAAAAA''],
          sessionState = Map.empty\<rparr>
        \<lparr>storage = \<lparr>tokens = [(''u42'', ''AAAA'')], users = []\<rparr>, trace = []\<rparr> =
      (Some (Wrap (Err ''disk full'') ''failed to save me token''),
       \<lparr>storage = \<lparr>tokens = [], users = []\<rparr>,
         trace = [EvUseRememberToken ''u42'' ''AAAA'', EvRandRead 32,
                  EvAddRememberToken ''u42'' ''YWFh'']\<rparr>)
   \<and> Authenticate (\<lambda>bs. bs) (Inr (replicate 32 (CHR 0x00))) \<lparr>Server = memStorer\<rparr>
        \<lparr>Context = Map.empty,
          cookieState = [CookieRemember \<mapsto> ''dTQyOwAAAAAAAAAAAAAAAAAAAAAAAAAAAAAAAAAAAAAAAAAA''],
          sessionState = Map.empty\<rparr>
        \<lparr>storage = \<lparr>tokens = [(''u42'', ''dTQyOwAAAAAAAAAAAAAAAAAAAAAAAAAAAAAAAAAAAAAAAAAA'')],
                     users = []\<rparr>, trace = []\<rparr> =
      (None,
       \<lparr>storage = \<lparr>tokens = [(''u42'', ''dTQyOwAAAAAAAAAAAAAAAAAAAAAAAAAAAAAAAAAAAAAAAAAA'')],
                    users = []\<rparr>,
         trace = [EvUseRememberToken ''u42'' ''dTQyOwAAAAAAAAAAAAAAAAAAAAAAAAAAAAAAAAAAAAAAAAAA'',
                  EvRandRead 32,
                  EvAddRememberToken ''u42'' ''dTQyOwAAAAAAAAAAAAAAAAAAAAAAAAAAAAAAAAAAAAAAAAAA'',
                  EvPutSession SessionKey ''u42'',
                  EvPutSession SessionHalfAuthKey ''true'', EvDelCookie CookieRemember,
                  EvPutCookie CookieRemember
                    ''dTQyOwAAAAAAAAAAAAAAAAAAAAAAAAAAAAAAAAAAAAAAAAAA'']\<rparr>)"
  by code_simp

end
